theory Spec2Isabelle
  imports Main "HOL-Library.Sublist"
begin

section \<open>JavaScript values used by the front end\<close>

text \<open>
  The front end (\<^verbatim>\<open>frontend/src/App.jsx\<close> and the history page) handles strings and parsed
  JSON bodies. Strings are byte lists; \<^verbatim>\<open>String.prototype.toLowerCase\<close> is modelled on the
  ASCII letters, the only letters the status, intent and SQL texts of the engine contain;
  \<^verbatim>\<open>String.prototype.includes\<close> is the contiguous-substring test.
\<close>

definition lower_char :: "char \<Rightarrow> char" where
  "lower_char c =
     (case map_of (zip ''ABCDEFGHIJKLMNOPQRSTUVWXYZ'' ''abcdefghijklmnopqrstuvwxyz'') c of
        None \<Rightarrow> c | Some l \<Rightarrow> l)"

definition toLowerCase :: "string \<Rightarrow> string" where
  "toLowerCase s = map lower_char s"

definition str_includes :: "string \<Rightarrow> string \<Rightarrow> bool" where
  "str_includes s t = sublist t s"

text \<open>
  \<^verbatim>\<open>String.prototype.trim\<close> strips white space at both ends (here the ASCII white space).
\<close>

definition is_space :: "char \<Rightarrow> bool" where
  "is_space c = (c \<in> set [CHR '' '', CHR 0x09, CHR 0x0A, CHR 0x0B, CHR 0x0C, CHR 0x0D])"

definition trim :: "string \<Rightarrow> string" where
  "trim s = rev (dropWhile is_space (rev (dropWhile is_space s)))"

text \<open>The decimal text of a number inside a template literal.\<close>

definition digit_char :: "nat \<Rightarrow> char" where
  "digit_char d = ''0123456789'' ! d"

fun show_nat :: "nat \<Rightarrow> string" where
  "show_nat n =
     (if n < 10 then [digit_char n]
      else show_nat (n div 10) @ [digit_char (n mod 10)])"

declare show_nat.simps [simp del]

section \<open>History page: \<^verbatim>\<open>filteredHistory\<close>\<close>

text \<open>
  A row of the history table. Every field the filter reads is optional in the source
  (\<^verbatim>\<open>item.question?.toLowerCase()\<close>): \<open>None\<close> is JavaScript's \<^verbatim>\<open>undefined\<close> or \<^verbatim>\<open>null\<close>.
\<close>

record history_item =
  item_question :: "string option"
  item_intent :: "string option"
  item_sql :: "string option"
  item_status :: "string option"

text \<open>\<^verbatim>\<open>field?.toLowerCase().includes(term)\<close>: an absent field short-circuits to a falsy value.\<close>

definition field_includes :: "string option \<Rightarrow> string \<Rightarrow> bool" where
  "field_includes field term =
     (case field of None \<Rightarrow> False | Some s \<Rightarrow> str_includes (toLowerCase s) term)"

definition filteredHistory :: "history_item list \<Rightarrow> string \<Rightarrow> string \<Rightarrow> history_item list" where
  "filteredHistory history searchTerm statusFilter =
     (let items = history;
          items = (if searchTerm \<noteq> [] then
                     (let term = toLowerCase searchTerm in
                      filter (\<lambda>item. field_includes (item_question item) term
                                   \<or> field_includes (item_intent item) term
                                   \<or> field_includes (item_sql item) term) items)
                   else items);
          items = (if statusFilter \<noteq> ''all'' then
                     filter (\<lambda>item. item_status item = Some statusFilter) items
                   else items)
      in items)"

text \<open>The search condition as C9 words it: the lowercased term occurs in the field itself.\<close>

definition term_in_field :: "string option \<Rightarrow> string \<Rightarrow> bool" where
  "term_in_field field searchTerm =
     (case field of None \<Rightarrow> False | Some s \<Rightarrow> str_includes s (toLowerCase searchTerm))"

text \<open>The search condition of the code: the lowercased term occurs in the lowercased field.\<close>

definition term_in_lowered_field :: "string option \<Rightarrow> string \<Rightarrow> bool" where
  "term_in_lowered_field field searchTerm =
     (case field of None \<Rightarrow> False | Some s \<Rightarrow> str_includes (toLowerCase s) (toLowerCase searchTerm))"

definition hello_item :: history_item where
  "hello_item = \<lparr>item_question = Some ''Hello'', item_intent = None, item_sql = None,
                  item_status = Some ''success''\<rparr>"

section \<open>The shared \<^verbatim>\<open>api\<close> fetch helper\<close>

text \<open>
  A parsed JSON body. An object is the list of its properties (one entry per name);
  numbers are integers, of which the helper reads only whether they are zero.
\<close>

datatype json =
  JNull | JBool bool | JNum int | JStr string | JArr "json list" | JObj "(string \<times> json) list"

text \<open>
  Property access \<^verbatim>\<open>v.name\<close> on a value other than \<^verbatim>\<open>null\<close>, for the names the helper
  reads (\<^verbatim>\<open>detail\<close>, \<^verbatim>\<open>errors\<close>, \<^verbatim>\<open>message\<close>): \<open>None\<close> is \<^verbatim>\<open>undefined\<close>.
\<close>

fun get_prop :: "json \<Rightarrow> string \<Rightarrow> json option" where
  "get_prop (JObj kvs) k = map_of kvs k"
| "get_prop _ k = None"

fun truthy :: "json \<Rightarrow> bool" where
  "truthy JNull = False"
| "truthy (JBool b) = b"
| "truthy (JNum n) = (n \<noteq> 0)"
| "truthy (JStr s) = (s \<noteq> [])"
| "truthy (JArr xs) = True"
| "truthy (JObj kvs) = True"

text \<open>
  The message of a thrown \<^verbatim>\<open>Error\<close>: a string, or the built-in conversion the source
  applies to a value (\<^verbatim>\<open>new Error(v)\<close> converts with ToString, \<^verbatim>\<open>detail.join("; ")\<close>,
  \<^verbatim>\<open>JSON.stringify(detail)\<close>), kept symbolic.
\<close>

datatype message = Text string | ToString json | Joined "json list" string | Stringified json

fun to_message :: "json \<Rightarrow> message" where
  "to_message (JStr s) = Text s"
| "to_message v = ToString v"

text \<open>
  What the helper throws: a \<^verbatim>\<open>TypeError\<close> of the engine (reading a property of
  \<^verbatim>\<open>null\<close>), or an \<^verbatim>\<open>Error\<close> with its message and its \<^verbatim>\<open>errors\<close> property.
\<close>

datatype js_error = TypeError | Error message "json option"

fun err_message :: "js_error \<Rightarrow> message" where
  "err_message TypeError = Text ''Cannot read properties of null (reading 'detail')''"
| "err_message (Error m e) = m"

fun err_errors :: "js_error \<Rightarrow> json option" where
  "err_errors TypeError = None"
| "err_errors (Error m e) = e"

text \<open>
  The response of \<^verbatim>\<open>fetch\<close>, as far as the helper reads it. \<open>body = None\<close>: \<^verbatim>\<open>res.json()\<close>
  rejects (the body is not JSON).
\<close>

record response =
  ok :: bool
  statusText :: string
  body :: "json option"

text \<open>\<^verbatim>\<open>const data = await res.json().catch(() => ({}))\<close>\<close>

definition json_or_empty :: "response \<Rightarrow> json" where
  "json_or_empty res = (case body res of None \<Rightarrow> JObj [] | Some v \<Rightarrow> v)"

text \<open>\<^verbatim>\<open>data.detail || res.statusText\<close>, for \<^verbatim>\<open>data\<close> other than \<^verbatim>\<open>null\<close>.\<close>

definition detail_or_statusText :: "json \<Rightarrow> response \<Rightarrow> json" where
  "detail_or_statusText data res =
     (case get_prop data ''detail'' of
        None \<Rightarrow> JStr (statusText res)
      | Some d \<Rightarrow> if truthy d then d else JStr (statusText res))"

text \<open>The helper of the history page.\<close>

definition api_history :: "response \<Rightarrow> js_error + json" where
  "api_history res =
     (let data = json_or_empty res in
      if \<not> ok res then
        (case data of
           JNull \<Rightarrow> Inl TypeError
         | _ \<Rightarrow> Inl (Error (to_message (detail_or_statusText data res)) None))
      else Inr data)"

text \<open>
  The helper of \<^verbatim>\<open>App.jsx\<close>, which also handles a structured \<^verbatim>\<open>detail\<close>. The error it
  builds from \<^verbatim>\<open>detail\<close>:
\<close>

definition error_of_detail :: "json \<Rightarrow> js_error" where
  "error_of_detail detail =
     (if (case detail of JObj kvs \<Rightarrow> True | JArr xs \<Rightarrow> True | _ \<Rightarrow> False)
         \<and> (case get_prop detail ''errors'' of None \<Rightarrow> False | Some e \<Rightarrow> truthy e)
      then Error (case get_prop detail ''message'' of
                    None \<Rightarrow> Text ''Validation failed''
                  | Some m \<Rightarrow> if truthy m then to_message m else Text ''Validation failed'')
                 (get_prop detail ''errors'')
      else Error (case detail of
                    JArr xs \<Rightarrow> Joined xs ''; ''
                  | JStr s \<Rightarrow> Text s
                  | v \<Rightarrow> Stringified v)
                 None)"

definition api :: "response \<Rightarrow> js_error + json" where
  "api res =
     (let data = json_or_empty res in
      if \<not> ok res then
        (case data of
           JNull \<Rightarrow> Inl TypeError
         | _ \<Rightarrow> Inl (error_of_detail (detail_or_statusText data res)))
      else Inr data)"

definition falsy_detail_response :: response where
  "falsy_detail_response =
     \<lparr>ok = False, statusText = ''Bad Request'', body = Some (JObj [(''detail'', JNum 0)])\<rparr>"

definition null_body_response :: response where
  "null_body_response = \<lparr>ok = False, statusText = ''Bad Gateway'', body = Some JNull\<rparr>"

section \<open>The pipeline view of \<^verbatim>\<open>App.jsx\<close>\<close>

datatype icon = Check | Lightning | Database | Sparkles | Shield | Code | Play | Chat

record pipeline_step =
  step_id :: string
  step_label :: string
  step_icon :: icon

definition PIPELINE_STEPS :: "pipeline_step list" where
  "PIPELINE_STEPS =
     [\<lparr>step_id = ''question_validation'', step_label = ''Validate'', step_icon = Check\<rparr>,
      \<lparr>step_id = ''intent_detection'', step_label = ''Intent'', step_icon = Lightning\<rparr>,
      \<lparr>step_id = ''schema_load'', step_label = ''Schema'', step_icon = Database\<rparr>,
      \<lparr>step_id = ''plan_generation'', step_label = ''Planner'', step_icon = Sparkles\<rparr>,
      \<lparr>step_id = ''plan_validation'', step_label = ''Validator'', step_icon = Shield\<rparr>,
      \<lparr>step_id = ''sql_compilation'', step_label = ''SQL Build'', step_icon = Code\<rparr>,
      \<lparr>step_id = ''safety_validation'', step_label = ''Safety'', step_icon = Shield\<rparr>,
      \<lparr>step_id = ''query_execution'', step_label = ''Execute'', step_icon = Play\<rparr>,
      \<lparr>step_id = ''narration'', step_label = ''Narrate'', step_icon = Chat\<rparr>]"

text \<open>The stage names as the specification lists them, in its order.\<close>

definition spec_stage_names :: "string list" where
  "spec_stage_names =
     [''validate_question'', ''detect_intent'', ''load_schema'', ''generate_plan'',
      ''validate_plan'', ''compile_sql'', ''validate_safety'', ''execute_query'', ''narrate'']"

text \<open>
  The body sent to \<^verbatim>\<open>/pipeline/run\<close> and what the view reads of the answer: an entry of
  \<^verbatim>\<open>result.steps\<close> (\<^verbatim>\<open>s.step\<close>, \<^verbatim>\<open>s.status\<close>) and the result itself. \<open>steps = None\<close>: the
  answer has no \<^verbatim>\<open>steps\<close> (\<^verbatim>\<open>result.steps?.forEach\<close>); \<open>execution_time_ms = None\<close>: it has
  no such field. The answer is taken in the shape the back end gives it: an object whose
  \<^verbatim>\<open>steps\<close>, when present, is a list of objects with a \<^verbatim>\<open>step\<close> and a \<^verbatim>\<open>status\<close> string.
\<close>

record pipeline_request =
  req_question :: string
  execute :: bool
  narrate :: bool

record step_report =
  step :: string
  status :: string

record pipeline_result =
  success :: bool
  result_question :: "string option"
  steps :: "step_report list option"
  execution_time_ms :: "nat option"
  validation_errors :: "json option"

record toast =
  toast_message :: message
  tone :: string

text \<open>The state of the \<^verbatim>\<open>App\<close> component that \<^verbatim>\<open>runPipeline\<close> reads and writes.\<close>

record app_state =
  question :: string
  executeQuery :: bool
  includeNarration :: bool
  pipelineRunning :: bool
  pipelineResult :: "pipeline_result option"
  pipelineSteps :: "string \<rightharpoonup> string"
  toast_state :: toast

text \<open>\<^verbatim>\<open>notify\<close> shows a toast (the timer that clears it four seconds later is not modelled).\<close>

definition notify :: "message \<Rightarrow> string \<Rightarrow> app_state \<Rightarrow> app_state" where
  "notify m t st = st\<lparr>toast_state := \<lparr>toast_message = m, tone = t\<rparr>\<rparr>"

definition setPipelineStep :: "string \<Rightarrow> string \<Rightarrow> app_state \<Rightarrow> app_state" where
  "setPipelineStep k v st = st\<lparr>pipelineSteps := (pipelineSteps st)(k \<mapsto> v)\<rparr>"

definition request_of :: "app_state \<Rightarrow> pipeline_request" where
  "request_of st =
     \<lparr>req_question = question st, execute = executeQuery st, narrate = includeNarration st\<rparr>"

text \<open>
  \<^verbatim>\<open>runPipeline\<close>, in the two parts that the \<^verbatim>\<open>await\<close> separates. Up to the call: the
  state is reset and every stage of \<^verbatim>\<open>PIPELINE_STEPS\<close> is set to \<^verbatim>\<open>pending\<close>. The queued
  state updates are applied in the order the source issues them.
\<close>

definition startPipeline :: "app_state \<Rightarrow> app_state" where
  "startPipeline st =
     (let st = st\<lparr>pipelineRunning := True\<rparr>;
          st = st\<lparr>pipelineResult := None\<rparr>;
          st = st\<lparr>pipelineSteps := Map.empty\<rparr>
      in fold (\<lambda>s. setPipelineStep (step_id s) ''pending'') PIPELINE_STEPS st)"

text \<open>
  After the call: the \<^verbatim>\<open>try\<close> branch on a result, the \<^verbatim>\<open>catch\<close> branch on a thrown error,
  and \<^verbatim>\<open>finally\<close>.
\<close>

definition settlePipeline :: "js_error + pipeline_result \<Rightarrow> app_state \<Rightarrow> app_state" where
  "settlePipeline outcome st =
     (let st = (case outcome of
                  Inr result \<Rightarrow>
                    let st = (case steps result of
                                None \<Rightarrow> st
                              | Some ss \<Rightarrow> fold (\<lambda>s. setPipelineStep (step s) (status s)) ss st);
                        st = st\<lparr>pipelineResult := Some result\<rparr>
                    in if success result then
                         notify (Text (''Pipeline completed in ''
                                       @ (case execution_time_ms result of
                                            None \<Rightarrow> ''undefined'' | Some ms \<Rightarrow> show_nat ms)
                                       @ ''ms'')) ''success'' st
                       else notify (Text ''Pipeline completed with errors'') ''warning'' st
                | Inl err \<Rightarrow>
                    let st = (if (case err_errors err of None \<Rightarrow> False | Some e \<Rightarrow> truthy e) then
                                st\<lparr>pipelineResult :=
                                     Some \<lparr>success = False, result_question = Some (question st),
                                           steps = Some [], execution_time_ms = None,
                                           validation_errors = err_errors err\<rparr>\<rparr>
                              else st)
                    in notify (err_message err) ''error'' st)
      in st\<lparr>pipelineRunning := False\<rparr>)"

text \<open>
  The whole of \<^verbatim>\<open>runPipeline\<close>. The awaited call \<^verbatim>\<open>api("/pipeline/run", ...)\<close> is the
  parameter \<open>backend\<close>: it returns the result or the thrown error. A blank question
  returns early.
\<close>

definition runPipeline :: "(pipeline_request \<Rightarrow> js_error + pipeline_result) \<Rightarrow> app_state \<Rightarrow> app_state" where
  "runPipeline backend st =
     (if trim (question st) = [] then notify (Text ''Please enter a question'') ''warning'' st
      else settlePipeline (backend (request_of st)) (startPipeline st))"

text \<open>The step report a call returned: empty when it threw or carried no \<^verbatim>\<open>steps\<close>.\<close>

definition reported :: "js_error + pipeline_result \<Rightarrow> step_report list" where
  "reported outcome =
     (case outcome of Inl err \<Rightarrow> [] | Inr result \<Rightarrow> (case steps result of None \<Rightarrow> [] | Some ss \<Rightarrow> ss))"

text \<open>The component \<^verbatim>\<open>PipelineStep\<close> and what it draws for one stage.\<close>

definition statusStyles :: "(string \<times> string) list" where
  "statusStyles =
     [(''pending'', ''bg-surface-800 border-surface-700 text-surface-500''),
      (''running'', ''bg-accent-500/20 border-accent-500/40 text-accent-400 animate-pulse''),
      (''success'', ''bg-success/20 border-success/40 text-emerald-400''),
      (''error'', ''bg-error/20 border-error/40 text-red-400'')]"

record step_view =
  view_class :: string
  view_icon :: icon
  view_label :: string
  view_check :: bool
  view_cross :: bool
  view_connector :: "string option"

text \<open>
  \<^verbatim>\<open>statusStyles[status] || statusStyles.pending\<close>; \<open>None\<close> is an \<^verbatim>\<open>undefined\<close> status. A
  status is looked up among the four own properties of \<^verbatim>\<open>statusStyles\<close>.
\<close>

definition style_of :: "string option \<Rightarrow> string" where
  "style_of st =
     (case (case st of None \<Rightarrow> None | Some s \<Rightarrow> map_of statusStyles s) of
        Some c \<Rightarrow> c
      | None \<Rightarrow> (case map_of statusStyles ''pending'' of Some c \<Rightarrow> c | None \<Rightarrow> ''undefined''))"

definition PipelineStep :: "pipeline_step \<Rightarrow> string option \<Rightarrow> bool \<Rightarrow> step_view" where
  "PipelineStep stp st isLast =
     \<lparr>view_class = ''flex items-center gap-2 px-3 py-2 rounded-lg border '' @ style_of st,
      view_icon = step_icon stp,
      view_label = step_label stp,
      view_check = (st = Some ''success''),
      view_cross = (st = Some ''error''),
      view_connector =
        (if \<not> isLast then
           Some (''w-6 h-0.5 '' @ (if st = Some ''success'' then ''bg-success/40'' else ''bg-surface-700''))
         else None)\<rparr>"

text \<open>The pipeline flow diagram: \<^verbatim>\<open>PIPELINE_STEPS.map((step, i) => <PipelineStep ... />)\<close>.\<close>

definition timeline :: "app_state \<Rightarrow> step_view list" where
  "timeline st =
     map (\<lambda>(i, stp). PipelineStep stp (pipelineSteps st (step_id stp))
                        (i = length PIPELINE_STEPS - 1))
         (enumerate 0 PIPELINE_STEPS)"

section \<open>The semantic compilation core\<close>

text \<open>
  The back end (\<^verbatim>\<open>backend/app\<close>: plan validator, join resolver, SQL compiler, safety guard
  and pipeline orchestrator) is not among the sources at hand; only its caller, the front
  end above, is. Every definition of this section is therefore written from the
  specification, and says so.
\<close>

subsection \<open>Data model\<close>

text \<open>
  Modelled from the spec: the column references of a CanonicalPlan (section 3 and the wire
  contract of section 6). The back-end parser of the wire string is missing; a reference
  is kept as the table it belongs to (``its table'', section 4.2) and the column name.
\<close>

record column_ref =
  ref_table :: string
  ref_column :: string

text \<open>Modelled from the spec: a metric of a CanonicalPlan, ``each: column, aggregation''.\<close>

record metric =
  metric_column :: column_ref
  agg :: string

text \<open>
  Modelled from the spec: the ``value(s)'' of a filter (``value: any'' on the wire), one
  literal or a list of literals.
\<close>

datatype filter_value = Scalar string | Values "string list"

text \<open>Modelled from the spec: a filter of a CanonicalPlan, ``each: column, operator, value(s)''.\<close>

record plan_filter =
  filter_column :: column_ref
  filter_op :: string
  filter_value :: filter_value

text \<open>Modelled from the spec: an entry of \<^verbatim>\<open>order_by\<close>, ``(column, direction)''.\<close>

record order_item =
  order_column :: column_ref
  dir :: string

text \<open>Modelled from the spec: the CanonicalPlan of section 3 (the back-end type is missing).\<close>

record CanonicalPlan =
  intent :: string
  fact_table :: string
  dimensions :: "column_ref list"
  metrics :: "metric list"
  filters :: "plan_filter list"
  group_by :: "column_ref list"
  order_by :: "order_item list"
  limit :: int

text \<open>Modelled from the spec: a SchemaEntry of the catalogue snapshot (section 3).\<close>

record SchemaEntry =
  entry_table :: string
  entry_column :: string
  data_type :: string
  is_primary_key :: bool
  is_foreign_key :: bool
  references :: "(string \<times> string) option"

text \<open>Modelled from the spec: the role of a TableMapping, ``role \<open>\<in>\<close> {fact, dimension}''.\<close>

datatype table_role = Fact | Dimension

text \<open>Modelled from the spec: ``priority \<open>\<in>\<close> {gold, silver, bronze} (informational)''.\<close>

datatype table_priority = Gold | Silver | Bronze

text \<open>Modelled from the spec: a TableMapping of the mapping store (section 3).\<close>

record TableMapping =
  mapped_table :: string
  role :: table_role
  priority :: table_priority
  tenant_column :: "string option"
  business_name :: string

text \<open>
  Modelled from the spec: the declaration of a column in the mappings (``not declared in
  mappings'', section 4.2; the store keeps the business meaning of a column).
\<close>

record ColumnMapping =
  cm_table :: string
  cm_column :: string
  business_meaning :: string

text \<open>Modelled from the spec: an ApprovedJoin (section 3).\<close>

record ApprovedJoin =
  left_table :: string
  left_column :: string
  right_table :: string
  right_column :: string

text \<open>
  Modelled from the spec: the immutable snapshot of catalogue and mappings that is passed
  into every stage (sections 5 and 9), and the configured limit ceiling.
\<close>

record snapshot =
  catalog :: "SchemaEntry list"
  table_mappings :: "TableMapping list"
  column_mappings :: "ColumnMapping list"
  approved_joins :: "ApprovedJoin list"
  limit_ceiling :: int

text \<open>Modelled from the spec: the error codes of section 4.2 (``enum, not free text'').\<close>

datatype error_code =
  E_TABLE_UNKNOWN | E_COLUMN_UNKNOWN | E_NO_TENANT_FILTER | E_JOIN_NOT_APPROVED | E_AGG_NOT_ALLOWED

text \<open>Modelled from the spec: the warning codes of section 4.2.\<close>

datatype warning_code = W_LIMIT_CLAMPED | W_IMPLICIT_GROUP_BY

text \<open>Modelled from the spec: ValidationError, ``code, human message, optional suggestion''.\<close>

record ValidationError =
  code :: error_code
  error_text :: string
  suggestion :: "string option"

text \<open>Modelled from the spec: ValidationWarning, ``code, message''.\<close>

record ValidationWarning =
  warning :: warning_code
  warning_text :: string

text \<open>Modelled from the spec: the answer of validate-plan, \<^verbatim>\<open>{errors[], warnings[]}\<close>.\<close>

record validation =
  errors :: "ValidationError list"
  warnings :: "ValidationWarning list"

subsection \<open>JoinResolver\<close>

text \<open>
  Modelled from the spec: the approved joins that leave a table, each turned so that the
  table is on its left (section 4.3: edges are approved joins, ``undirected for
  path-finding purposes but stored directionally'').
\<close>

definition edges_from :: "ApprovedJoin list \<Rightarrow> string \<Rightarrow> ApprovedJoin list" where
  "edges_from js t =
     concat (map (\<lambda>j. (if left_table j = t then [j] else [])
                      @ (if right_table j = t then
                           [\<lparr>left_table = right_table j, left_column = right_column j,
                             right_table = left_table j, right_column = left_column j\<rparr>]
                         else [])) js)"

text \<open>
  Modelled from the spec: a table reached by the search of the missing resolver, with the
  path that reached it; a table already reached keeps its first (shortest) path.
\<close>

definition add_reached ::
  "string \<times> ApprovedJoin list \<Rightarrow> (string \<times> ApprovedJoin list) list \<Rightarrow> (string \<times> ApprovedJoin list) list" where
  "add_reached e found = (if fst e \<in> set (map fst found) then found else found @ [e])"

text \<open>
  Modelled from the spec: one round of the ``shortest-path search over the join graph'':
  every reached table is extended by the edges that leave it, in the stored order of the
  approved joins (the order that settles ties).
\<close>

definition search_round ::
  "ApprovedJoin list \<Rightarrow> (string \<times> ApprovedJoin list) list \<Rightarrow> (string \<times> ApprovedJoin list) list" where
  "search_round js found =
     fold add_reached
       (concat (map (\<lambda>e. map (\<lambda>j. (right_table j, snd e @ [j])) (edges_from js (fst e))) found))
       found"

text \<open>
  Modelled from the spec: JoinResolver for one dimension table: the path from the fact
  table, or \<open>None\<close> (``either a full path exists or the dimension is rejected''). A
  shortest path has at most as many edges as there are approved joins, which bounds the
  number of rounds.
\<close>

definition JoinResolver :: "ApprovedJoin list \<Rightarrow> string \<Rightarrow> string \<Rightarrow> ApprovedJoin list option" where
  "JoinResolver js src dst = map_of ((search_round js ^^ length js) [(src, [])]) dst"

text \<open>Modelled from the spec: ``JoinResolver finds no path'', negated.\<close>

definition has_path :: "ApprovedJoin list \<Rightarrow> string \<Rightarrow> string \<Rightarrow> bool" where
  "has_path js src dst = (JoinResolver js src dst \<noteq> None)"

subsection \<open>PlanValidator\<close>

text \<open>Modelled from the spec: every column a plan references, in the order of its fields.\<close>

definition referenced_columns :: "CanonicalPlan \<Rightarrow> column_ref list" where
  "referenced_columns p =
     remdups (dimensions p @ map metric_column (metrics p) @ map filter_column (filters p)
              @ group_by p @ map order_column (order_by p))"

text \<open>Modelled from the spec: every table a plan references, the fact table first.\<close>

definition referenced_tables :: "CanonicalPlan \<Rightarrow> string list" where
  "referenced_tables p = remdups (fact_table p # map ref_table (referenced_columns p))"

text \<open>Modelled from the spec: the tables of the SchemaCatalog snapshot.\<close>

definition known_table :: "snapshot \<Rightarrow> string \<Rightarrow> bool" where
  "known_table snap t = (t \<in> set (map entry_table (catalog snap)))"

text \<open>
  Modelled from the spec: a column present in its table and declared in the mappings (the
  negation of the condition of \<^verbatim>\<open>E_COLUMN_UNKNOWN\<close>).
\<close>

definition known_column :: "snapshot \<Rightarrow> column_ref \<Rightarrow> bool" where
  "known_column snap c =
     ((ref_table c, ref_column c) \<in> set (map (\<lambda>e. (entry_table e, entry_column e)) (catalog snap))
      \<and> (ref_table c, ref_column c) \<in> set (map (\<lambda>m. (cm_table m, cm_column m)) (column_mappings snap)))"

text \<open>Modelled from the spec: the construction of an entry with a code (texts are not specified).\<close>

definition validation_error :: "error_code \<Rightarrow> string \<Rightarrow> ValidationError" where
  "validation_error c subject = \<lparr>code = c, error_text = subject, suggestion = None\<rparr>"

text \<open>Modelled from the spec: the construction of a warning with a code.\<close>

definition validation_warning :: "warning_code \<Rightarrow> string \<Rightarrow> ValidationWarning" where
  "validation_warning c subject = \<lparr>warning = c, warning_text = subject\<rparr>"

text \<open>
  Modelled from the spec: the referenced tables that are ``absent from SchemaCatalog''.
\<close>

definition unknown_tables :: "snapshot \<Rightarrow> CanonicalPlan \<Rightarrow> string list" where
  "unknown_tables snap p = filter (\<lambda>t. \<not> known_table snap t) (referenced_tables p)"

text \<open>
  Modelled from the spec: \<^verbatim>\<open>E_TABLE_UNKNOWN\<close>, ``any referenced table absent from
  SchemaCatalog''; one entry per such table.
\<close>

definition check_table_unknown :: "snapshot \<Rightarrow> CanonicalPlan \<Rightarrow> validation" where
  "check_table_unknown snap p =
     \<lparr>errors = map (validation_error E_TABLE_UNKNOWN) (unknown_tables snap p), warnings = []\<rparr>"

text \<open>
  Modelled from the spec: the referenced columns that are ``absent from [their] table, or
  not declared in mappings''. The catalogue lists no column of a table it does not have,
  so every referenced column of an unknown table is among them.
\<close>

definition unknown_columns :: "snapshot \<Rightarrow> CanonicalPlan \<Rightarrow> column_ref list" where
  "unknown_columns snap p = filter (\<lambda>c. \<not> known_column snap c) (referenced_columns p)"

text \<open>Modelled from the spec: \<^verbatim>\<open>E_COLUMN_UNKNOWN\<close>, one entry per such column.\<close>

definition check_column_unknown :: "snapshot \<Rightarrow> CanonicalPlan \<Rightarrow> validation" where
  "check_column_unknown snap p =
     \<lparr>errors = map (\<lambda>c. validation_error E_COLUMN_UNKNOWN (ref_table c @ ''.'' @ ref_column c))
                  (unknown_columns snap p),
      warnings = []\<rparr>"

text \<open>Modelled from the spec: the tenant column configured for a table in the mappings.\<close>

definition tenant_column_of :: "snapshot \<Rightarrow> string \<Rightarrow> string option" where
  "tenant_column_of snap t =
     (case find (\<lambda>m. mapped_table m = t) (table_mappings snap) of
        None \<Rightarrow> None
      | Some m \<Rightarrow> tenant_column m)"

text \<open>
  Modelled from the spec: a filter that ``binds that column to exactly one value'': an
  equality of the column with one literal.
\<close>

definition binds_single_value :: "column_ref \<Rightarrow> plan_filter \<Rightarrow> bool" where
  "binds_single_value c f =
     (filter_column f = c \<and> filter_op f = ''=''
      \<and> (case filter_value f of Scalar v \<Rightarrow> True | Values vs \<Rightarrow> False))"

text \<open>
  Modelled from the spec: ``fact table has a configured tenant_column but no filter binds
  it to a single value''.
\<close>

definition lacks_tenant_filter :: "snapshot \<Rightarrow> CanonicalPlan \<Rightarrow> bool" where
  "lacks_tenant_filter snap p =
     (case tenant_column_of snap (fact_table p) of
        None \<Rightarrow> False
      | Some tc \<Rightarrow>
          \<not> list_ex (binds_single_value \<lparr>ref_table = fact_table p, ref_column = tc\<rparr>) (filters p))"

text \<open>
  Modelled from the spec: \<^verbatim>\<open>E_NO_TENANT_FILTER\<close>; ``this check is mandatory and cannot be
  disabled per-request'': it takes the snapshot and the plan, and no switch.
\<close>

definition check_no_tenant_filter :: "snapshot \<Rightarrow> CanonicalPlan \<Rightarrow> validation" where
  "check_no_tenant_filter snap p =
     \<lparr>errors = (if lacks_tenant_filter snap p
                then [validation_error E_NO_TENANT_FILTER (fact_table p)] else []),
      warnings = []\<rparr>"

text \<open>
  Modelled from the spec: the referenced dimensions to which ``JoinResolver finds no path
  from fact table ... using only ApprovedJoin edges''; the referenced dimensions are the
  tables of the plan other than its fact table, whether the catalogue has them or not.
\<close>

definition unjoined_dimensions :: "snapshot \<Rightarrow> CanonicalPlan \<Rightarrow> string list" where
  "unjoined_dimensions snap p =
     filter (\<lambda>t. t \<noteq> fact_table p \<and> \<not> has_path (approved_joins snap) (fact_table p) t)
            (referenced_tables p)"

text \<open>Modelled from the spec: \<^verbatim>\<open>E_JOIN_NOT_APPROVED\<close>, one entry per such dimension.\<close>

definition check_join_not_approved :: "snapshot \<Rightarrow> CanonicalPlan \<Rightarrow> validation" where
  "check_join_not_approved snap p =
     \<lparr>errors = map (validation_error E_JOIN_NOT_APPROVED) (unjoined_dimensions snap p),
      warnings = []\<rparr>"

text \<open>Modelled from the spec: ``the allowed set {SUM, COUNT, AVG, MIN, MAX}''.\<close>

definition allowed_aggregations :: "string list" where
  "allowed_aggregations = [''SUM'', ''COUNT'', ''AVG'', ''MIN'', ''MAX'']"

text \<open>Modelled from the spec: the metrics that request ``an aggregation outside the allowed set''.\<close>

definition disallowed_metrics :: "CanonicalPlan \<Rightarrow> metric list" where
  "disallowed_metrics p = filter (\<lambda>m. agg m \<notin> set allowed_aggregations) (metrics p)"

text \<open>Modelled from the spec: \<^verbatim>\<open>E_AGG_NOT_ALLOWED\<close>, one entry per offending metric.\<close>

definition check_agg_not_allowed :: "snapshot \<Rightarrow> CanonicalPlan \<Rightarrow> validation" where
  "check_agg_not_allowed snap p =
     \<lparr>errors = map (\<lambda>m. validation_error E_AGG_NOT_ALLOWED (agg m)) (disallowed_metrics p),
      warnings = []\<rparr>"

text \<open>
  Modelled from the spec: \<^verbatim>\<open>W_LIMIT_CLAMPED\<close>, ``requested limit exceeds the configured
  ceiling (warning; compiler clamps rather than failing)''.
\<close>

definition check_limit_clamped :: "snapshot \<Rightarrow> CanonicalPlan \<Rightarrow> validation" where
  "check_limit_clamped snap p =
     \<lparr>errors = [],
      warnings = (if limit p > limit_ceiling snap
                  then [validation_warning W_LIMIT_CLAMPED ''limit''] else [])\<rparr>"

text \<open>
  Modelled from the spec: \<^verbatim>\<open>W_IMPLICIT_GROUP_BY\<close>, ``metrics present without explicit
  group_by while dimensions are also requested''.
\<close>

definition check_implicit_group_by :: "snapshot \<Rightarrow> CanonicalPlan \<Rightarrow> validation" where
  "check_implicit_group_by snap p =
     \<lparr>errors = [],
      warnings = (if metrics p \<noteq> [] \<and> group_by p = [] \<and> dimensions p \<noteq> []
                  then [validation_warning W_IMPLICIT_GROUP_BY ''group_by''] else [])\<rparr>"

text \<open>Modelled from the spec: the ``fixed, ordered sequence of independent checks''.\<close>

definition checks :: "(snapshot \<Rightarrow> CanonicalPlan \<Rightarrow> validation) list" where
  "checks =
     [check_table_unknown, check_column_unknown, check_no_tenant_filter,
      check_join_not_approved, check_agg_not_allowed, check_limit_clamped,
      check_implicit_group_by]"

text \<open>
  Modelled from the spec: one check run after the checks before it, its entries added to
  the batch (``both accumulate in a single validation pass; never discarded'').
\<close>

definition run_check ::
  "snapshot \<Rightarrow> CanonicalPlan \<Rightarrow> (snapshot \<Rightarrow> CanonicalPlan \<Rightarrow> validation) \<Rightarrow> validation \<Rightarrow> validation" where
  "run_check snap p chk acc =
     \<lparr>errors = errors acc @ errors (chk snap p), warnings = warnings acc @ warnings (chk snap p)\<rparr>"

text \<open>
  Modelled from the spec: PlanValidator (validate-plan of section 6): every check of the
  sequence runs, in order, whatever the checks before it found.
\<close>

definition PlanValidator :: "snapshot \<Rightarrow> CanonicalPlan \<Rightarrow> validation" where
  "PlanValidator snap p = fold (run_check snap p) checks \<lparr>errors = [], warnings = []\<rparr>"

text \<open>Modelled from the spec: ``a plan with zero ValidationError entries is validated''.\<close>

definition validated :: "snapshot \<Rightarrow> CanonicalPlan \<Rightarrow> bool" where
  "validated snap p = (errors (PlanValidator snap p) = [])"

subsection \<open>SqlCompiler\<close>

text \<open>
  Modelled from the spec: the ``mapping of table/column to their canonical schema
  identifiers'' that the compiler receives (section 4.4).
\<close>

record identifiers =
  table_ident :: "string \<rightharpoonup> string"
  column_ident :: "string \<times> string \<rightharpoonup> string"

text \<open>
  Modelled from the spec: the CompiledQuery of section 3, ``sql, params (ordered sequence
  of (name, value)), audit_id''.
\<close>

record CompiledQuery =
  sql :: string
  params :: "(string \<times> string) list"
  audit_id :: string

text \<open>Modelled from the spec: the ``fatal internal error'' of compile-plan (section 7).\<close>

datatype compile_error = CompilationInternalError

text \<open>Modelled from the spec: the decimal text of the integer of the LIMIT clause.\<close>

definition show_int :: "int \<Rightarrow> string" where
  "show_int i = (if i < 0 then ''-'' @ show_nat (nat (- i)) else show_nat (nat i))"

text \<open>
  Modelled from the spec: an identifier of the SQL text, ``drawn exclusively from the
  validated schema/mapping allowlist''; \<open>None\<close> is a resolution failure.
\<close>

definition column_sql :: "identifiers \<Rightarrow> column_ref \<Rightarrow> string option" where
  "column_sql ids c =
     (case table_ident ids (ref_table c) of
        None \<Rightarrow> None
      | Some t \<Rightarrow>
          (case column_ident ids (ref_table c, ref_column c) of
             None \<Rightarrow> None
           | Some col \<Rightarrow> Some (t @ ''.'' @ col)))"

text \<open>
  Modelled from the spec: an aggregated metric of the SELECT list ``with deterministic
  aliasing'': the alias is the position of the metric.
\<close>

definition metric_sql :: "identifiers \<Rightarrow> nat \<times> metric \<Rightarrow> string option" where
  "metric_sql ids im =
     (if agg (snd im) \<in> set allowed_aggregations then
        (case column_sql ids (metric_column (snd im)) of
           None \<Rightarrow> None
         | Some c \<Rightarrow> Some (agg (snd im) @ ''('' @ c @ '') AS m'' @ show_nat (fst im)))
      else None)"

text \<open>Modelled from the spec: one JOIN clause for one edge of a resolved path.\<close>

definition join_sql :: "identifiers \<Rightarrow> ApprovedJoin \<Rightarrow> string option" where
  "join_sql ids j =
     (case (table_ident ids (right_table j),
            column_sql ids \<lparr>ref_table = left_table j, ref_column = left_column j\<rparr>,
            column_sql ids \<lparr>ref_table = right_table j, ref_column = right_column j\<rparr>) of
        (Some rt, Some l, Some r) \<Rightarrow> Some ('' JOIN '' @ rt @ '' ON '' @ l @ '' = '' @ r)
      | _ \<Rightarrow> None)"

text \<open>Modelled from the spec: a list of clause items separated by a fixed separator.\<close>

fun join_with :: "string \<Rightarrow> string list \<Rightarrow> string" where
  "join_with sep [] = []"
| "join_with sep [x] = x"
| "join_with sep (x # y # ys) = x @ sep @ join_with sep (y # ys)"

text \<open>Modelled from the spec: the operators a fixed template can hold.\<close>

definition allowed_operators :: "string list" where
  "allowed_operators = [''='', ''!='', ''<'', ''<='', ''>'', ''>='', ''LIKE'', ''IN'']"

text \<open>Modelled from the spec: the named placeholder of the parameter at a position.\<close>

definition param_name :: "nat \<Rightarrow> string" where
  "param_name n = ''p'' @ show_nat n"

text \<open>
  Modelled from the spec: the WHERE conditions. ``Every literal value supplied by a
  filter becomes a bound parameter, never string-concatenated into the SQL text'': the
  text holds placeholders, the values go to the ordered parameter list. \<open>n\<close> is the
  position of the next parameter.
\<close>

fun filters_sql ::
  "identifiers \<Rightarrow> nat \<Rightarrow> plan_filter list \<Rightarrow> (string list \<times> (string \<times> string) list) option" where
  "filters_sql ids n [] = Some ([], [])"
| "filters_sql ids n (f # fs) =
     (case column_sql ids (filter_column f) of
        None \<Rightarrow> None
      | Some c \<Rightarrow>
          if filter_op f \<notin> set allowed_operators then None
          else
            (let vs = (case filter_value f of Scalar v \<Rightarrow> [v] | Values ws \<Rightarrow> ws);
                 names = map param_name [n ..< n + length vs];
                 holders = (case filter_value f of
                              Scalar v \<Rightarrow> '':'' @ param_name n
                            | Values ws \<Rightarrow> ''('' @ join_with '', '' (map (\<lambda>x. '':'' @ x) names) @ '')'')
             in case filters_sql ids (n + length vs) fs of
                  None \<Rightarrow> None
                | Some (conds, ps) \<Rightarrow>
                    Some ((c @ '' '' @ filter_op f @ '' '' @ holders) # conds, zip names vs @ ps)))"

text \<open>
  Modelled from the spec: ``ORDER BY is restricted to columns present in
  dimensions/metrics''.
\<close>

definition orderable :: "CanonicalPlan \<Rightarrow> order_item list" where
  "orderable p =
     filter (\<lambda>ob. order_column ob \<in> set (dimensions p @ map metric_column (metrics p))) (order_by p)"

text \<open>Modelled from the spec: one item of ORDER BY, with its direction.\<close>

definition order_sql :: "identifiers \<Rightarrow> order_item \<Rightarrow> string option" where
  "order_sql ids ob =
     (case column_sql ids (order_column ob) of
        None \<Rightarrow> None
      | Some c \<Rightarrow> Some (c @ (if dir ob = ''desc'' then '' DESC'' else '' ASC'')))"

text \<open>Modelled from the spec: a clause that is left out when it has no item.\<close>

definition clause :: "string \<Rightarrow> string \<Rightarrow> string list \<Rightarrow> string" where
  "clause keyword sep items = (if items = [] then [] else keyword @ join_with sep items)"

text \<open>Modelled from the spec: ``LIMIT is \<open>min(plan.limit, configured_ceiling)\<close>''.\<close>

definition limit_clause :: "snapshot \<Rightarrow> CanonicalPlan \<Rightarrow> string" where
  "limit_clause snap p = '' LIMIT '' @ show_int (min (limit p) (limit_ceiling snap))"

text \<open>
  Modelled from the spec: SqlCompiler (compile-plan of section 6), the lowering of section
  4.4: SELECT lists dimensions then aggregated metrics, FROM names the fact table, JOIN
  clauses follow the resolved path order, WHERE combines the plan filters (the mandatory
  tenant filter is one of them once the plan is validated), GROUP BY mirrors dimensions,
  ORDER BY is restricted, LIMIT closes the statement. Any resolution
  failure is the fatal internal error. The audit identifier of the CompiledQuery is
  handed in by the orchestrating layer. The spec names neither the user-scoped intents
  nor a user column, so the user filter of such intents is not told apart from the other
  plan filters.
\<close>

definition SqlCompiler ::
  "snapshot \<Rightarrow> identifiers \<Rightarrow> CanonicalPlan \<Rightarrow> ApprovedJoin list \<Rightarrow> string
    \<Rightarrow> compile_error + CompiledQuery" where
  "SqlCompiler snap ids p path aid =
     (case (those (map (column_sql ids) (dimensions p)),
            those (map (metric_sql ids) (enumerate 0 (metrics p))),
            table_ident ids (fact_table p),
            those (map (join_sql ids) path),
            filters_sql ids 0 (filters p),
            those (map (order_sql ids) (orderable p))) of
        (Some dims, Some ms, Some ft, Some joins, Some (conds, ps), Some obs) \<Rightarrow>
          if dims @ ms = [] then Inl CompilationInternalError
          else
            Inr \<lparr>sql = ''SELECT '' @ join_with '', '' (dims @ ms)
                       @ '' FROM '' @ ft
                       @ concat joins
                       @ clause '' WHERE '' '' AND '' conds
                       @ (if ms = [] then [] else clause '' GROUP BY '' '', '' dims)
                       @ clause '' ORDER BY '' '', '' obs
                       @ limit_clause snap p,
                 params = ps,
                 audit_id = aid\<rparr>
      | _ \<Rightarrow> Inl CompilationInternalError)"

subsection \<open>SafetyGuard\<close>

text \<open>Modelled from the spec: the rejection of check-safety; the caller sees no detail.\<close>

datatype safety_violation = SafetyViolation

text \<open>
  Modelled from the spec: ``more than one statement (a statement-terminator found outside
  of a string/parameter placeholder)''. The SQL of a CompiledQuery is ``template-generated
  ... with positional/named placeholders only'' (section 3): it holds no string literal,
  and a placeholder (\<^verbatim>\<open>:p0\<close>, \<^verbatim>\<open>:p1\<close>, ...) holds no terminator. Where a string ends in
  an arbitrary text depends on comments, quoted identifiers and escapes, which differ
  between the SQL dialects the engine connects to; the guard fails closed and does not
  try to tell: a terminator at any place of the text counts. Every text that section 4.5
  rejects for its terminator is rejected, and so is a text with a terminator inside a
  string.
\<close>

definition has_terminator :: "string \<Rightarrow> bool" where
  "has_terminator text = (CHR '';'' \<in> set text)"

text \<open>Modelled from the spec: the characters of a keyword or identifier.\<close>

definition is_word_char :: "char \<Rightarrow> bool" where
  "is_word_char c =
     (c \<in> set ''abcdefghijklmnopqrstuvwxyzABCDEFGHIJKLMNOPQRSTUVWXYZ0123456789_'')"

text \<open>Modelled from the spec: the words of a text, for the keyword scan of the guard.\<close>

fun words_of :: "string \<Rightarrow> string \<Rightarrow> string list" where
  "words_of cur [] = (if cur = [] then [] else [cur])"
| "words_of cur (c # cs) =
     (if is_word_char c then words_of (cur @ [c]) cs
      else (if cur = [] then [] else [cur]) @ words_of [] cs)"

text \<open>
  Modelled from the spec: the ``DDL/DML keywords (CREATE, DROP, ALTER, INSERT, UPDATE,
  DELETE, GRANT, TRUNCATE, MERGE)''.
\<close>

definition forbidden_keywords :: "string list" where
  "forbidden_keywords =
     [''CREATE'', ''DROP'', ''ALTER'', ''INSERT'', ''UPDATE'', ''DELETE'', ''GRANT'',
      ''TRUNCATE'', ''MERGE'']"

text \<open>
  Modelled from the spec: the ``catalog/metadata objects (e.g., information-schema-style
  names)''.
\<close>

definition catalog_names :: "string list" where
  "catalog_names = [''INFORMATION_SCHEMA'', ''PG_CATALOG'', ''SQLITE_MASTER'']"

text \<open>
  Modelled from the spec: what the guard can ``positively classify as a single safe read
  statement'': the text starts with SELECT, holds no terminator, and none of its words,
  wherever it stands, is a DDL/DML keyword or a catalogue name (in any letter case).
\<close>

definition single_safe_read :: "string \<Rightarrow> bool" where
  "single_safe_read text =
     (let ws = map toLowerCase (words_of [] text) in
      \<not> has_terminator text
      \<and> (case ws of [] \<Rightarrow> False | w # rest \<Rightarrow> w = ''select'')
      \<and> \<not> list_ex (\<lambda>w. w \<in> set (map toLowerCase forbidden_keywords)) ws
      \<and> \<not> list_ex (\<lambda>w. w \<in> set (map toLowerCase catalog_names)) ws)"

text \<open>
  Modelled from the spec: SafetyGuard (check-safety of section 6, \<^verbatim>\<open>ok | SafetyViolation\<close>):
  it fails closed.
\<close>

definition SafetyGuard :: "string \<Rightarrow> safety_violation + unit" where
  "SafetyGuard text = (if single_safe_read text then Inr () else Inl SafetyViolation)"

subsection \<open>PipelineOrchestrator\<close>

text \<open>Modelled from the spec: the named stages of section 4.6.\<close>

datatype stage =
  Validate_question | Detect_intent | Load_schema | Generate_plan | Validate_plan
  | Compile_sql | Validate_safety | Execute_query | Narrate

text \<open>Modelled from the spec: the ``finite sequence of named stages'', in its order.\<close>

definition pipeline_stages :: "stage list" where
  "pipeline_stages =
     [Validate_question, Detect_intent, Load_schema, Generate_plan, Validate_plan,
      Compile_sql, Validate_safety, Execute_query, Narrate]"

text \<open>Modelled from the spec: the statuses of a PipelineStepResult (section 3).\<close>

datatype step_status = St_pending | St_running | St_success | St_error | St_skipped

text \<open>
  Modelled from the spec: a PipelineStepResult, ``step identifier, status, latency, error
  detail if any'' (time is not modelled: no latency).
\<close>

record PipelineStepResult =
  result_stage :: stage
  result_status :: step_status
  result_detail :: "string option"

text \<open>
  Modelled from the spec: the collaborators of section 6 that the orchestrator calls, each
  ``a synchronous collaborator call returning a result-or-error'' (\<open>None\<close>: the error):
  question check, intent classification, snapshot fetch, plan drafting (PlanBuilder is
  not modelled), execution, narration, and the audit identifier of the run.
\<close>

record collaborators =
  question_valid :: "string \<Rightarrow> bool"
  classify_intent :: "string \<Rightarrow> string option"
  fetch_snapshot :: "snapshot option"
  build_plan :: "string \<Rightarrow> string \<Rightarrow> snapshot \<Rightarrow> CanonicalPlan option"
  execute_sql :: "string \<Rightarrow> (string \<times> string) list \<Rightarrow> string list list option"
  narrate_rows :: "CanonicalPlan \<Rightarrow> string list list \<Rightarrow> string option"
  new_audit_id :: string

text \<open>
  Modelled from the spec: the state of one run: the status and error detail of every
  stage, whether a hard error has halted the run, the stages invoked so far, and the
  data that flows forward.
\<close>

record run_state =
  statuses :: "stage \<Rightarrow> step_status"
  details :: "stage \<Rightarrow> string option"
  halted :: bool
  invoked :: "stage list"
  run_intent :: "string option"
  run_snapshot :: "snapshot option"
  run_plan :: "CanonicalPlan option"
  run_validation :: "validation option"
  run_compiled :: "CompiledQuery option"
  run_rows :: "string list list option"
  run_narration :: "string option"

text \<open>Modelled from the spec: ``each stage starts pending''.\<close>

definition initial_run :: run_state where
  "initial_run =
     \<lparr>statuses = (\<lambda>s. St_pending), details = (\<lambda>s. None), halted = False, invoked = [],
      run_intent = None, run_snapshot = None, run_plan = None, run_validation = None,
      run_compiled = None, run_rows = None, run_narration = None\<rparr>"

text \<open>Modelled from the spec: the two stages that are ``individually toggle-able by the caller''.\<close>

fun disabled :: "pipeline_request \<Rightarrow> stage \<Rightarrow> bool" where
  "disabled req Execute_query = (\<not> execute req)"
| "disabled req Narrate = (\<not> narrate req)"
| "disabled req s = False"

text \<open>
  Modelled from the spec: the identifier mapping the compiler is given, here the names of
  the catalogue snapshot themselves.
\<close>

definition identifiers_of :: "snapshot \<Rightarrow> identifiers" where
  "identifiers_of snap =
     \<lparr>table_ident = (\<lambda>t. if known_table snap t then Some t else None),
      column_ident = (\<lambda>tc. if tc \<in> set (map (\<lambda>e. (entry_table e, entry_column e)) (catalog snap))
                           then Some (snd tc) else None)\<rparr>"

text \<open>
  Modelled from the spec: the resolved join paths of a plan, one per referenced dimension
  table, in the order of reference.
\<close>

definition resolved_paths :: "snapshot \<Rightarrow> CanonicalPlan \<Rightarrow> ApprovedJoin list" where
  "resolved_paths snap p =
     remdups (concat (map (\<lambda>t. case JoinResolver (approved_joins snap) (fact_table p) t of
                                None \<Rightarrow> [] | Some path \<Rightarrow> path)
                          (filter (\<lambda>t. t \<noteq> fact_table p) (referenced_tables p))))"

text \<open>
  Modelled from the spec: the work of each stage, on the data of the stages before it:
  whether it succeeded, and the state with its result. Validation succeeds when the
  batch has no error (``warnings never block compilation''); its batch is kept either
  way.
\<close>

fun stage_body :: "collaborators \<Rightarrow> pipeline_request \<Rightarrow> stage \<Rightarrow> run_state \<Rightarrow> bool \<times> run_state" where
  "stage_body col req Validate_question st = (question_valid col (req_question req), st)"
| "stage_body col req Detect_intent st =
     (case classify_intent col (req_question req) of
        None \<Rightarrow> (False, st)
      | Some i \<Rightarrow> (True, st\<lparr>run_intent := Some i\<rparr>))"
| "stage_body col req Load_schema st =
     (case fetch_snapshot col of
        None \<Rightarrow> (False, st)
      | Some snap \<Rightarrow> (True, st\<lparr>run_snapshot := Some snap\<rparr>))"
| "stage_body col req Generate_plan st =
     (case (run_intent st, run_snapshot st) of
        (Some i, Some snap) \<Rightarrow>
          (case build_plan col i (req_question req) snap of
             None \<Rightarrow> (False, st)
           | Some p \<Rightarrow> (True, st\<lparr>run_plan := Some p\<rparr>))
      | _ \<Rightarrow> (False, st))"
| "stage_body col req Validate_plan st =
     (case (run_snapshot st, run_plan st) of
        (Some snap, Some p) \<Rightarrow>
          (errors (PlanValidator snap p) = [], st\<lparr>run_validation := Some (PlanValidator snap p)\<rparr>)
      | _ \<Rightarrow> (False, st))"
| "stage_body col req Compile_sql st =
     (case (run_snapshot st, run_plan st) of
        (Some snap, Some p) \<Rightarrow>
          (case SqlCompiler snap (identifiers_of snap) p (resolved_paths snap p) (new_audit_id col) of
             Inl e \<Rightarrow> (False, st)
           | Inr q \<Rightarrow> (True, st\<lparr>run_compiled := Some q\<rparr>))
      | _ \<Rightarrow> (False, st))"
| "stage_body col req Validate_safety st =
     (case run_compiled st of
        None \<Rightarrow> (False, st)
      | Some q \<Rightarrow> (case SafetyGuard (sql q) of Inl v \<Rightarrow> (False, st) | Inr u \<Rightarrow> (True, st)))"
| "stage_body col req Execute_query st =
     (case run_compiled st of
        None \<Rightarrow> (False, st)
      | Some q \<Rightarrow>
          (case execute_sql col (sql q) (params q) of
             None \<Rightarrow> (False, st)
           | Some rows \<Rightarrow> (True, st\<lparr>run_rows := Some rows\<rparr>)))"
| "stage_body col req Narrate st =
     (case run_plan st of
        None \<Rightarrow> (False, st)
      | Some p \<Rightarrow>
          (case narrate_rows col p (case run_rows st of None \<Rightarrow> [] | Some rows \<Rightarrow> rows) of
             None \<Rightarrow> (False, st)
           | Some t \<Rightarrow> (True, st\<lparr>run_narration := Some t\<rparr>)))"

text \<open>Modelled from the spec: a stage that is reached ``transitions to running''.\<close>

definition begin_stage :: "stage \<Rightarrow> run_state \<Rightarrow> run_state" where
  "begin_stage s st = st\<lparr>statuses := (statuses st)(s := St_running), invoked := invoked st @ [s]\<rparr>"

text \<open>
  Modelled from the spec: a running stage ends in success, or in error, which is the
  ``hard error'' that halts what follows.
\<close>

definition end_stage :: "stage \<Rightarrow> bool \<times> run_state \<Rightarrow> run_state" where
  "end_stage s r =
     (if fst r then (snd r)\<lparr>statuses := (statuses (snd r))(s := St_success)\<rparr>
      else (snd r)\<lparr>statuses := (statuses (snd r))(s := St_error),
                   details := (details (snd r))(s := Some ''stage failed''),
                   halted := True\<rparr>)"

text \<open>
  Modelled from the spec: one stage of a run. A stage the caller disabled is marked
  skipped; after a hard error a stage is not reached and remains pending; otherwise it
  runs.
\<close>

definition run_stage :: "collaborators \<Rightarrow> pipeline_request \<Rightarrow> stage \<Rightarrow> run_state \<Rightarrow> run_state" where
  "run_stage col req s st =
     (if disabled req s then st\<lparr>statuses := (statuses st)(s := St_skipped)\<rparr>
      else if halted st then st
      else end_stage s (stage_body col req s (begin_stage s st)))"

text \<open>
  Modelled from the spec: PipelineOrchestrator (run-pipeline of section 6): the stages in
  their fixed order, from the state in which every stage is pending.
\<close>

definition run_pipeline :: "collaborators \<Rightarrow> pipeline_request \<Rightarrow> run_state" where
  "run_pipeline col req = fold (run_stage col req) pipeline_stages initial_run"

text \<open>
  Modelled from the spec: the ``full step report'' of a run, one PipelineStepResult per
  stage, in the order of the stages.
\<close>

definition step_report_of :: "run_state \<Rightarrow> PipelineStepResult list" where
  "step_report_of st =
     map (\<lambda>s. \<lparr>result_stage = s, result_status = statuses st s, result_detail = details st s\<rparr>)
         pipeline_stages"

subsection \<open>A catalogue and plans to run the model on\<close>

definition schema_entry :: "string \<Rightarrow> string \<Rightarrow> SchemaEntry" where
  "schema_entry t c =
     \<lparr>entry_table = t, entry_column = c, data_type = ''text'', is_primary_key = False,
      is_foreign_key = False, references = None\<rparr>"

definition demo_snapshot :: snapshot where
  "demo_snapshot =
     \<lparr>catalog = [schema_entry ''orders'' ''id'', schema_entry ''orders'' ''tenant_id'',
                 schema_entry ''orders'' ''amount'', schema_entry ''orders'' ''customer_id'',
                 schema_entry ''customers'' ''id'', schema_entry ''customers'' ''name''],
      table_mappings =
        [\<lparr>mapped_table = ''orders'', role = Fact, priority = Gold,
          tenant_column = Some ''tenant_id'', business_name = ''Orders''\<rparr>,
         \<lparr>mapped_table = ''customers'', role = Dimension, priority = Silver,
          tenant_column = None, business_name = ''Customers''\<rparr>],
      column_mappings =
        [\<lparr>cm_table = ''orders'', cm_column = ''tenant_id'', business_meaning = ''tenant''\<rparr>,
         \<lparr>cm_table = ''orders'', cm_column = ''amount'', business_meaning = ''order value''\<rparr>,
         \<lparr>cm_table = ''customers'', cm_column = ''name'', business_meaning = ''customer''\<rparr>],
      approved_joins =
        [\<lparr>left_table = ''orders'', left_column = ''customer_id'',
          right_table = ''customers'', right_column = ''id''\<rparr>],
      limit_ceiling = 500\<rparr>"

definition demo_plan :: CanonicalPlan where
  "demo_plan =
     \<lparr>intent = ''aggregate'', fact_table = ''orders'',
      dimensions = [\<lparr>ref_table = ''customers'', ref_column = ''name''\<rparr>],
      metrics = [\<lparr>metric_column = \<lparr>ref_table = ''orders'', ref_column = ''amount''\<rparr>, agg = ''SUM''\<rparr>],
      filters = [\<lparr>filter_column = \<lparr>ref_table = ''orders'', ref_column = ''tenant_id''\<rparr>,
                  filter_op = ''='', filter_value = Scalar ''42''\<rparr>],
      group_by = [\<lparr>ref_table = ''customers'', ref_column = ''name''\<rparr>],
      order_by = [],
      limit = 100\<rparr>"

text \<open>The plan of the limit-clamping property: limit 100000 against the ceiling 500.\<close>

definition big_limit_plan :: CanonicalPlan where
  "big_limit_plan = demo_plan\<lparr>limit := 100000\<rparr>"

text \<open>The same plan without its tenant filter.\<close>

definition no_tenant_plan :: CanonicalPlan where
  "no_tenant_plan = demo_plan\<lparr>filters := []\<rparr>"




text \<open>Collaborators that answer every call, drafting a given plan on the demo catalogue.\<close>

definition demo_collaborators :: "CanonicalPlan \<Rightarrow> collaborators" where
  "demo_collaborators p =
     \<lparr>question_valid = (\<lambda>q. q \<noteq> []),
      classify_intent = (\<lambda>q. Some ''aggregate''),
      fetch_snapshot = Some demo_snapshot,
      build_plan = (\<lambda>i q snap. Some p),
      execute_sql = (\<lambda>q ps. Some [[''acme'', ''10'']]),
      narrate_rows = (\<lambda>pl rows. Some ''One customer.''),
      new_audit_id = ''audit-1''\<rparr>"

definition demo_request :: "bool \<Rightarrow> bool \<Rightarrow> pipeline_request" where
  "demo_request e n = \<lparr>req_question = ''total per customer for tenant 42'', execute = e, narrate = n\<rparr>"

subsection \<open>Texts to run the guard on\<close>





section \<open>Inputs to run the front end on\<close>

definition ok_response :: response where
  "ok_response = \<lparr>ok = True, statusText = ''OK'', body = Some (JObj [(''rows'', JArr [])])\<rparr>"

definition detail_response :: response where
  "detail_response =
     \<lparr>ok = False, statusText = ''Bad Request'',
      body = Some (JObj [(''detail'', JStr ''Question is required'')])\<rparr>"

definition unparsable_response :: response where
  "unparsable_response = \<lparr>ok = False, statusText = ''Internal Server Error'', body = None\<rparr>"

definition asking_state :: app_state where
  "asking_state =
     \<lparr>question = ''total sales per customer'', executeQuery = True, includeNarration = True,
      pipelineRunning = False, pipelineResult = None, pipelineSteps = Map.empty,
      toast_state = \<lparr>toast_message = Text [], tone = ''info''\<rparr>\<rparr>"


text \<open>A back end whose call throws (the helper \<^verbatim>\<open>api\<close> rejects).\<close>

definition throwing_backend :: "pipeline_request \<Rightarrow> js_error + pipeline_result" where
  "throwing_backend req = Inl (Error (Text ''Internal Server Error'') None)"

text \<open>A back end that ran every mandatory stage and skipped execution and narration.\<close>

definition skipping_backend :: "pipeline_request \<Rightarrow> js_error + pipeline_result" where
  "skipping_backend req =
     Inr \<lparr>success = True, result_question = Some (req_question req),
          steps = Some [\<lparr>step = ''question_validation'', status = ''success''\<rparr>,
                        \<lparr>step = ''intent_detection'', status = ''success''\<rparr>,
                        \<lparr>step = ''schema_load'', status = ''success''\<rparr>,
                        \<lparr>step = ''plan_generation'', status = ''success''\<rparr>,
                        \<lparr>step = ''plan_validation'', status = ''success''\<rparr>,
                        \<lparr>step = ''sql_compilation'', status = ''success''\<rparr>,
                        \<lparr>step = ''safety_validation'', status = ''success''\<rparr>,
                        \<lparr>step = ''query_execution'', status = ''skipped''\<rparr>,
                        \<lparr>step = ''narration'', status = ''skipped''\<rparr>],
          execution_time_ms = Some 40, validation_errors = None\<rparr>"

section \<open>Properties of the history filter\<close>

lemma toLowerCase_hello: "toLowerCase ''Hello'' = ''hello''"
  by (simp add: toLowerCase_def lower_char_def)

lemma toLowerCase_hello_id: "toLowerCase ''hello'' = ''hello''"
  by (simp add: toLowerCase_def lower_char_def)

text \<open>
  C9 (as stated) fails: with the term \<^verbatim>\<open>hello\<close> the row whose question is \<^verbatim>\<open>Hello\<close> is
  displayed, although the lowercased term is not a substring of the question itself.
\<close>

theorem filteredHistory_case_counterexample:
  "hello_item \<in> set (filteredHistory [hello_item] ''hello'' ''all'')
   \<and> \<not> ((''hello'' = [] \<or> term_in_field (item_question hello_item) ''hello''
              \<or> term_in_field (item_intent hello_item) ''hello''
              \<or> term_in_field (item_sql hello_item) ''hello'')
          \<and> (''all'' = ''all'' \<or> item_status hello_item = Some ''all''))"
  by (simp add: filteredHistory_def field_includes_def term_in_field_def hello_item_def
      str_includes_def toLowerCase_hello toLowerCase_hello_id sublist_code)

text \<open>
  C9 (amended): the filtered history is the history restricted, in order, to the rows for
  which (the search term is empty, or the lowercased term is a substring of the lowercased
  question, intent or sql) and (the status filter is \<^verbatim>\<open>all\<close>, or the row's status equals
  the selected filter); no other row is displayed.
\<close>

theorem filteredHistory_characterisation:
  "filteredHistory history searchTerm statusFilter =
     filter (\<lambda>item. (searchTerm = [] \<or> term_in_lowered_field (item_question item) searchTerm
                        \<or> term_in_lowered_field (item_intent item) searchTerm
                        \<or> term_in_lowered_field (item_sql item) searchTerm)
                   \<and> (statusFilter = ''all'' \<or> item_status item = Some statusFilter)) history
   \<and> (x \<in> set (filteredHistory history searchTerm statusFilter) \<longleftrightarrow>
        x \<in> set history
        \<and> (searchTerm = [] \<or> term_in_lowered_field (item_question x) searchTerm
             \<or> term_in_lowered_field (item_intent x) searchTerm
             \<or> term_in_lowered_field (item_sql x) searchTerm)
        \<and> (statusFilter = ''all'' \<or> item_status x = Some statusFilter))"
proof -
  have eq: "filteredHistory history searchTerm statusFilter =
     filter (\<lambda>item. (searchTerm = [] \<or> term_in_lowered_field (item_question item) searchTerm
                        \<or> term_in_lowered_field (item_intent item) searchTerm
                        \<or> term_in_lowered_field (item_sql item) searchTerm)
                   \<and> (statusFilter = ''all'' \<or> item_status item = Some statusFilter)) history"
    by (auto simp: filteredHistory_def field_includes_def term_in_lowered_field_def Let_def
        intro: filter_cong)
  show ?thesis
    by (rule conjI, rule eq) (simp add: eq)
qed

section \<open>Properties of the pipeline view\<close>

text \<open>A sequence of step updates leaves, for each key, the last value written.\<close>

lemma fold_setPipelineStep:
  "pipelineSteps (fold (\<lambda>s. setPipelineStep (f s) (g s)) xs st) k =
     (case map_of (rev (map (\<lambda>s. (f s, g s)) xs)) k of None \<Rightarrow> pipelineSteps st k | Some v \<Rightarrow> Some v)"
  by (induction xs arbitrary: st) (auto simp: setPipelineStep_def split: option.splits)

lemma fold_setPipelineStep_other:
  "question (fold (\<lambda>s. setPipelineStep (f s) (g s)) xs st) = question st"
  "executeQuery (fold (\<lambda>s. setPipelineStep (f s) (g s)) xs st) = executeQuery st"
  "includeNarration (fold (\<lambda>s. setPipelineStep (f s) (g s)) xs st) = includeNarration st"
  by (induction xs arbitrary: st) (auto simp: setPipelineStep_def)

lemma request_of_fold:
  "request_of (fold (\<lambda>s. setPipelineStep (f s) (g s)) xs st) = request_of st"
  by (simp add: request_of_def fold_setPipelineStep_other)

lemma pending_init:
  "pipelineSteps (fold (\<lambda>s. setPipelineStep (step_id s) ''pending'') PIPELINE_STEPS st) k =
     (if k \<in> step_id ` set PIPELINE_STEPS then Some ''pending'' else pipelineSteps st k)"
proof -
  have "map_of (rev (map (\<lambda>s. (step_id s, ''pending'')) PIPELINE_STEPS)) k =
          (if k \<in> step_id ` set PIPELINE_STEPS then Some ''pending'' else None)"
    by (simp add: PIPELINE_STEPS_def)
  then show ?thesis
    using fold_setPipelineStep [of step_id "\<lambda>s. ''pending''" PIPELINE_STEPS st k] by simp
qed

lemma startPipeline_steps:
  "pipelineSteps (startPipeline st) k =
     (if k \<in> step_id ` set PIPELINE_STEPS then Some ''pending'' else None)"
  by (simp add: startPipeline_def pending_init)

lemma settlePipeline_steps:
  "pipelineSteps (settlePipeline outcome st) k =
     (case map_of (rev (map (\<lambda>s. (step s, status s)) (reported outcome))) k of
        Some v \<Rightarrow> Some v
      | None \<Rightarrow> pipelineSteps st k)"
proof (cases outcome)
  case (Inl err)
  then show ?thesis
    by (simp add: settlePipeline_def Let_def notify_def reported_def)
next
  case (Inr result)
  then show ?thesis
    by (cases "steps result")
       (simp_all add: settlePipeline_def Let_def notify_def reported_def fold_setPipelineStep
          split: option.splits)
qed

lemma pipelineSteps_runPipeline:
  assumes "trim (question st) \<noteq> []"
  shows "pipelineSteps (runPipeline backend st) k =
     (case map_of (rev (map (\<lambda>s. (step s, status s)) (reported (backend (request_of st))))) k of
        Some v \<Rightarrow> Some v
      | None \<Rightarrow> (if k \<in> step_id ` set PIPELINE_STEPS then Some ''pending'' else None))"
  using assms
  by (simp add: runPipeline_def settlePipeline_steps startPipeline_steps split: option.splits)

lemma map_of_rev_all_pending:
  assumes "\<forall>r\<in>set rs. step r = k \<longrightarrow> status r = v"
  shows "map_of (rev (map (\<lambda>s. (step s, status s)) rs)) k = None
       \<or> map_of (rev (map (\<lambda>s. (step s, status s)) rs)) k = Some v"
proof (cases "map_of (rev (map (\<lambda>s. (step s, status s)) rs)) k")
  case None
  then show ?thesis by simp
next
  case (Some w)
  then have "(k, w) \<in> set (rev (map (\<lambda>s. (step s, status s)) rs))"
    by (rule map_of_SomeD)
  then obtain r where "r \<in> set rs" "step r = k" "status r = w" by auto
  with assms Some show ?thesis by auto
qed

lemma timeline_labels: "map view_label (timeline st) = map step_label PIPELINE_STEPS"
  by (simp add: timeline_def PIPELINE_STEPS_def PipelineStep_def enumerate_eq_zip)

text \<open>
  C7 (as stated) fails: the identifiers of the nine stages in \<^verbatim>\<open>PIPELINE_STEPS\<close> are not the
  names the claim lists.
\<close>

theorem pipeline_steps_names_counterexample:
  "map step_id PIPELINE_STEPS \<noteq>
     [''validate_question'', ''detect_intent'', ''load_schema'', ''generate_plan'',
      ''validate_plan'', ''compile_sql'', ''validate_safety'', ''execute_query'', ''narrate'']"
  by (simp add: PIPELINE_STEPS_def)

text \<open>
  C7 (amended): the pipeline consists of exactly nine stages in the fixed order
  \<^verbatim>\<open>question_validation\<close>, \<^verbatim>\<open>intent_detection\<close>, \<^verbatim>\<open>schema_load\<close>, \<^verbatim>\<open>plan_generation\<close>,
  \<^verbatim>\<open>plan_validation\<close>, \<^verbatim>\<open>sql_compilation\<close>, \<^verbatim>\<open>safety_validation\<close>, \<^verbatim>\<open>query_execution\<close>
  (optional), \<^verbatim>\<open>narration\<close> (optional), one for each stage name of the specification;
  the identifiers are fixed, known in advance and pairwise distinct; the timeline shows
  one entry per stage, in that order, in every state; the two optional stages are the
  ones the request can switch off.
\<close>

theorem pipeline_steps_fixed:
  "map step_id PIPELINE_STEPS =
     [''question_validation'', ''intent_detection'', ''schema_load'', ''plan_generation'',
      ''plan_validation'', ''sql_compilation'', ''safety_validation'', ''query_execution'',
      ''narration'']
   \<and> length PIPELINE_STEPS = 9
   \<and> length PIPELINE_STEPS = length spec_stage_names
   \<and> distinct (map step_id PIPELINE_STEPS)
   \<and> map view_label (timeline st) = map step_label PIPELINE_STEPS
   \<and> execute (request_of st) = executeQuery st
   \<and> narrate (request_of st) = includeNarration st"
proof -
  have "map view_label (timeline st) = map step_label PIPELINE_STEPS"
    by (rule timeline_labels)
  then show ?thesis
    by (simp add: PIPELINE_STEPS_def spec_stage_names_def request_of_def)
qed

text \<open>A status that the answer reports for a stage, and no other, is the status the view stores.\<close>

lemma reported_status_stored:
  assumes "trim (question st) \<noteq> []"
      and "r \<in> set (reported (backend (request_of st)))" "step r = k"
      and "\<forall>r'\<in>set (reported (backend (request_of st))). step r' = k \<longrightarrow> status r' = v"
  shows "pipelineSteps (runPipeline backend st) k = Some v"
proof -
  let ?m = "map_of (rev (map (\<lambda>s. (step s, status s)) (reported (backend (request_of st))))) k"
  from assms(2,3) have "k \<in> fst ` set (rev (map (\<lambda>s. (step s, status s)) (reported (backend (request_of st)))))"
    by force
  then have "?m \<noteq> None" by (simp only: map_of_eq_None_iff not_not)
  with map_of_rev_all_pending [OF assms(4)] have "?m = Some v" by blast
  then show ?thesis by (simp add: pipelineSteps_runPipeline [OF assms(1)])
qed






section \<open>Properties of the fetch helper\<close>

text \<open>
  C10 (as stated) fails: the body \<^verbatim>\<open>{"detail": 0}\<close> has a detail field, yet the error of
  a response that is not ok carries the status text, in both helpers.
\<close>

theorem api_falsy_detail_counterexample:
  "get_prop (json_or_empty falsy_detail_response) ''detail'' = Some (JNum 0)
   \<and> api_history falsy_detail_response = Inl (Error (Text ''Bad Request'') None)
   \<and> api falsy_detail_response = Inl (Error (Text ''Bad Request'') None)"
  by (simp add: falsy_detail_response_def api_def api_history_def json_or_empty_def
      detail_or_statusText_def error_of_detail_def)

text \<open>
  A body that parses to \<^verbatim>\<open>null\<close>: reading \<^verbatim>\<open>data.detail\<close> throws the engine's TypeError.
\<close>

lemma api_null_body:
  "api null_body_response = Inl TypeError \<and> api_history null_body_response = Inl TypeError"
  by (simp add: null_body_response_def api_def api_history_def json_or_empty_def)

text \<open>
  C10 (amended): both helpers return the parsed JSON body exactly when the response is ok
  and throw exactly when it is not; when the response is not ok and the parsed body is
  not \<^verbatim>\<open>null\<close>, the error carries the detail field when that field is truthy, and the
  status text when it is absent or falsy (\<^verbatim>\<open>App.jsx\<close>: the message and errors of a
  structured detail, the joined elements of an array, the string itself, or the JSON
  text; history page: the detail converted to a string); a body that fails to parse is
  treated as the empty object.
\<close>

theorem api_contract:
  "(ok res \<longrightarrow> api res = Inr (json_or_empty res) \<and> api_history res = Inr (json_or_empty res))
   \<and> (\<not> ok res \<longrightarrow> (\<exists>e. api res = Inl e) \<and> (\<exists>e. api_history res = Inl e))
   \<and> (\<not> ok res \<and> json_or_empty res \<noteq> JNull \<longrightarrow>
        api res = Inl (error_of_detail (detail_or_statusText (json_or_empty res) res))
        \<and> api_history res = Inl (Error (to_message (detail_or_statusText (json_or_empty res) res)) None))
   \<and> (get_prop (json_or_empty res) ''detail'' = Some d \<and> truthy d \<longrightarrow>
        detail_or_statusText (json_or_empty res) res = d)
   \<and> (get_prop (json_or_empty res) ''detail'' = None
        \<or> (\<exists>d'. get_prop (json_or_empty res) ''detail'' = Some d' \<and> \<not> truthy d') \<longrightarrow>
        detail_or_statusText (json_or_empty res) res = JStr (statusText res))
   \<and> (body res = None \<longrightarrow> json_or_empty res = JObj [])"
proof -
  have 1: "ok res \<longrightarrow> api res = Inr (json_or_empty res) \<and> api_history res = Inr (json_or_empty res)"
    by (simp add: api_def api_history_def)
  have 2: "\<not> ok res \<longrightarrow> (\<exists>e. api res = Inl e) \<and> (\<exists>e. api_history res = Inl e)"
    by (simp add: api_def api_history_def Let_def split: json.splits)
  have 3: "\<not> ok res \<and> json_or_empty res \<noteq> JNull \<longrightarrow>
        api res = Inl (error_of_detail (detail_or_statusText (json_or_empty res) res))
        \<and> api_history res = Inl (Error (to_message (detail_or_statusText (json_or_empty res) res)) None)"
    by (simp add: api_def api_history_def Let_def split: json.splits)
  have 4: "get_prop (json_or_empty res) ''detail'' = Some d \<and> truthy d \<longrightarrow>
        detail_or_statusText (json_or_empty res) res = d"
    by (simp add: detail_or_statusText_def)
  have 5: "get_prop (json_or_empty res) ''detail'' = None
        \<or> (\<exists>d'. get_prop (json_or_empty res) ''detail'' = Some d' \<and> \<not> truthy d') \<longrightarrow>
        detail_or_statusText (json_or_empty res) res = JStr (statusText res)"
    by (auto simp: detail_or_statusText_def)
  have 6: "body res = None \<longrightarrow> json_or_empty res = JObj []"
    by (simp add: json_or_empty_def)
  from 1 2 3 4 5 6 show ?thesis by blast
qed

text \<open>The contract on an ok response, a response with a detail, and an unparsable body.\<close>

theorem api_contract_witness:
  "api ok_response = Inr (JObj [(''rows'', JArr [])])
   \<and> api_history ok_response = Inr (JObj [(''rows'', JArr [])])
   \<and> api detail_response = Inl (Error (Text ''Question is required'') None)
   \<and> api_history detail_response = Inl (Error (Text ''Question is required'') None)
   \<and> api unparsable_response = Inl (Error (Text ''Internal Server Error'') None)
   \<and> api_history unparsable_response = Inl (Error (Text ''Internal Server Error'') None)"
proof -
  have a: "ok ok_response" "json_or_empty ok_response = JObj [(''rows'', JArr [])]"
    by (simp_all add: ok_response_def json_or_empty_def)
  have b: "\<not> ok detail_response" "json_or_empty detail_response \<noteq> JNull"
       "get_prop (json_or_empty detail_response) ''detail'' = Some (JStr ''Question is required'')"
       "truthy (JStr ''Question is required'')"
    by (simp_all add: detail_response_def json_or_empty_def)
  have c: "\<not> ok unparsable_response" "body unparsable_response = None"
       "statusText unparsable_response = ''Internal Server Error''"
       "json_or_empty unparsable_response = JObj []"
    by (simp_all add: unparsable_response_def json_or_empty_def)
  from api_contract [of ok_response] a
  have 1: "api ok_response = Inr (JObj [(''rows'', JArr [])])
         \<and> api_history ok_response = Inr (JObj [(''rows'', JArr [])])"
    by simp
  from api_contract [of detail_response "JStr ''Question is required''"] b
  have 2: "api detail_response = Inl (Error (Text ''Question is required'') None)
         \<and> api_history detail_response = Inl (Error (Text ''Question is required'') None)"
    by (simp add: error_of_detail_def)
  from api_contract [of unparsable_response] c
  have 3: "api unparsable_response = Inl (Error (Text ''Internal Server Error'') None)
         \<and> api_history unparsable_response = Inl (Error (Text ''Internal Server Error'') None)"
    by (simp add: error_of_detail_def)
  from 1 2 3 show ?thesis by simp
qed

section \<open>Properties of the plan validator\<close>

text \<open>The batch after a run of checks: what was there, then the entries of each check in order.\<close>

lemma fold_run_check:
  "errors (fold (run_check snap p) cs acc) = errors acc @ concat (map (\<lambda>chk. errors (chk snap p)) cs)
   \<and> warnings (fold (run_check snap p) cs acc) = warnings acc @ concat (map (\<lambda>chk. warnings (chk snap p)) cs)"
  by (induction cs arbitrary: acc) (simp_all add: run_check_def)

lemma PlanValidator_errors:
  "errors (PlanValidator snap p) = concat (map (\<lambda>chk. errors (chk snap p)) checks)"
  by (simp add: PlanValidator_def fold_run_check)

lemma PlanValidator_warnings:
  "warnings (PlanValidator snap p) = concat (map (\<lambda>chk. warnings (chk snap p)) checks)"
  by (simp add: PlanValidator_def fold_run_check)

lemma error_codes:
  "map code (errors (PlanValidator snap p)) =
     replicate (length (unknown_tables snap p)) E_TABLE_UNKNOWN
     @ replicate (length (unknown_columns snap p)) E_COLUMN_UNKNOWN
     @ (if lacks_tenant_filter snap p then [E_NO_TENANT_FILTER] else [])
     @ replicate (length (unjoined_dimensions snap p)) E_JOIN_NOT_APPROVED
     @ replicate (length (disallowed_metrics p)) E_AGG_NOT_ALLOWED"
  by (simp add: PlanValidator_errors checks_def check_table_unknown_def check_column_unknown_def
      check_no_tenant_filter_def check_join_not_approved_def check_agg_not_allowed_def
      check_limit_clamped_def check_implicit_group_by_def validation_error_def
      map_replicate_const comp_def)

lemma tenant_error:
  "lacks_tenant_filter snap p \<Longrightarrow> E_NO_TENANT_FILTER \<in> set (map code (errors (PlanValidator snap p)))"
  by (simp add: error_codes)

lemma validated_tenant: "validated snap p \<Longrightarrow> \<not> lacks_tenant_filter snap p"
  using tenant_error [of snap p] by (auto simp: validated_def)

lemma errors_limit_independent:
  "errors (PlanValidator snap (p\<lparr>limit := l\<rparr>)) = errors (PlanValidator snap p)"
  by (simp add: PlanValidator_errors checks_def check_table_unknown_def check_column_unknown_def
      check_no_tenant_filter_def check_join_not_approved_def check_agg_not_allowed_def
      check_limit_clamped_def check_implicit_group_by_def unknown_tables_def unknown_columns_def
      lacks_tenant_filter_def unjoined_dimensions_def disallowed_metrics_def
      referenced_tables_def referenced_columns_def split: option.splits)

lemma limit_warning:
  "limit p > limit_ceiling snap \<Longrightarrow>
     W_LIMIT_CLAMPED \<in> set (map warning (warnings (PlanValidator snap p)))"
  by (simp add: PlanValidator_warnings checks_def check_limit_clamped_def validation_warning_def
      check_table_unknown_def check_column_unknown_def
      check_no_tenant_filter_def check_join_not_approved_def check_agg_not_allowed_def)


section \<open>Properties of the orchestrator\<close>

text \<open>What the work of a stage, its start and its end leave unchanged.\<close>

lemma stage_body_frame:
  "invoked (snd (stage_body col req s st)) = invoked st"
  "statuses (snd (stage_body col req s st)) = statuses st"
  "details (snd (stage_body col req s st)) = details st"
  "halted (snd (stage_body col req s st)) = halted st"
  by (cases s; simp split: option.splits sum.splits prod.splits)+

lemma stage_body_data:
  "s \<noteq> Load_schema \<Longrightarrow> run_snapshot (snd (stage_body col req s st)) = run_snapshot st"
  "s \<noteq> Generate_plan \<Longrightarrow> run_plan (snd (stage_body col req s st)) = run_plan st"
  "s \<noteq> Compile_sql \<Longrightarrow> run_compiled (snd (stage_body col req s st)) = run_compiled st"
  by (cases s; simp split: option.splits sum.splits prod.splits)+

lemma begin_stage_data:
  "run_snapshot (begin_stage s st) = run_snapshot st"
  "run_plan (begin_stage s st) = run_plan st"
  "run_compiled (begin_stage s st) = run_compiled st"
  "halted (begin_stage s st) = halted st"
  by (simp_all add: begin_stage_def)

lemma end_stage_data:
  "run_snapshot (end_stage s r) = run_snapshot (snd r)"
  "run_plan (end_stage s r) = run_plan (snd r)"
  "run_compiled (end_stage s r) = run_compiled (snd r)"
  "invoked (end_stage s r) = invoked (snd r)"
  by (simp_all add: end_stage_def)

lemma run_stage_invoked:
  "invoked (run_stage col req s st) =
     (if disabled req s \<or> halted st then invoked st else invoked st @ [s])"
  by (simp add: run_stage_def end_stage_data stage_body_frame begin_stage_def)

lemma run_stage_data:
  "s \<noteq> Load_schema \<Longrightarrow> run_snapshot (run_stage col req s st) = run_snapshot st"
  "s \<noteq> Generate_plan \<Longrightarrow> run_plan (run_stage col req s st) = run_plan st"
  "s \<noteq> Compile_sql \<Longrightarrow> run_compiled (run_stage col req s st) = run_compiled st"
  by (simp_all add: run_stage_def end_stage_data stage_body_data begin_stage_data)

lemma run_stage_statuses_other:
  "s' \<noteq> s \<Longrightarrow> statuses (run_stage col req s st) s' = statuses st s'"
  by (simp add: run_stage_def end_stage_def stage_body_frame begin_stage_def)

lemma run_stage_status:
  "statuses (run_stage col req s st) s =
     (if disabled req s then St_skipped
      else if halted st then statuses st s
      else if fst (stage_body col req s (begin_stage s st)) then St_success else St_error)"
  by (simp add: run_stage_def end_stage_def stage_body_frame begin_stage_def)

lemma run_stage_halted:
  "halted (run_stage col req s st) =
     (halted st \<or> (\<not> disabled req s \<and> \<not> fst (stage_body col req s (begin_stage s st))))"
  by (simp add: run_stage_def end_stage_def stage_body_frame begin_stage_def)

lemma fold_invoked_subset:
  "set (invoked (fold (run_stage col req) ss st)) \<subseteq> set (invoked st) \<union> set ss"
proof (induction ss arbitrary: st)
  case Nil
  then show ?case by simp
next
  case (Cons s ss)
  have "set (invoked (run_stage col req s st)) \<subseteq> insert s (set (invoked st))"
    by (auto simp: run_stage_invoked split: if_splits)
  with Cons.IH [of "run_stage col req s st"] show ?case by auto
qed

lemma fold_invoked_mono:
  "set (invoked st) \<subseteq> set (invoked (fold (run_stage col req) ss st))"
proof (induction ss arbitrary: st)
  case Nil
  then show ?case by simp
next
  case (Cons s ss)
  have "set (invoked st) \<subseteq> set (invoked (run_stage col req s st))"
    by (auto simp: run_stage_invoked)
  with Cons.IH [of "run_stage col req s st"] show ?case by auto
qed

lemma fold_snapshot:
  "Load_schema \<notin> set ss \<Longrightarrow> run_snapshot (fold (run_stage col req) ss st) = run_snapshot st"
  by (induction ss arbitrary: st) (auto simp: run_stage_data)

lemma fold_plan:
  "Generate_plan \<notin> set ss \<Longrightarrow> run_plan (fold (run_stage col req) ss st) = run_plan st"
  by (induction ss arbitrary: st) (auto simp: run_stage_data)

lemma fold_compiled:
  "Compile_sql \<notin> set ss \<Longrightarrow> run_compiled (fold (run_stage col req) ss st) = run_compiled st"
  by (induction ss arbitrary: st) (auto simp: run_stage_data)

lemmas fold_data = fold_snapshot fold_plan fold_compiled

lemma fold_statuses_other:
  "s \<notin> set ss \<Longrightarrow> statuses (fold (run_stage col req) ss st) s = statuses st s"
  by (induction ss arbitrary: st) (auto simp: run_stage_statuses_other)

lemma validate_then_compile:
  assumes "Compile_sql \<in> set (invoked (run_stage col req Compile_sql (run_stage col req Validate_plan st)))"
      and "Compile_sql \<notin> set (invoked st)"
  shows "\<exists>snap p. run_snapshot st = Some snap \<and> run_plan st = Some p \<and> validated snap p"
proof -
  let ?st5 = "run_stage col req Validate_plan st"
  from assms have nh: "\<not> halted ?st5"
    by (auto simp: run_stage_invoked split: if_splits)
  then have "\<not> halted st" and ok: "fst (stage_body col req Validate_plan (begin_stage Validate_plan st))"
    by (simp_all add: run_stage_halted)
  from ok show ?thesis
    by (auto simp: begin_stage_def validated_def split: option.splits)
qed

lemma pipeline_split:
  "run_pipeline col req =
     fold (run_stage col req) [Validate_safety, Execute_query, Narrate]
       (run_stage col req Compile_sql
         (run_stage col req Validate_plan
           (fold (run_stage col req) [Validate_question, Detect_intent, Load_schema, Generate_plan]
              initial_run)))"
  by (simp add: run_pipeline_def pipeline_stages_def)

lemma compile_only_validated:
  assumes "Compile_sql \<in> set (invoked (run_pipeline col req))"
  shows "\<exists>snap p. run_snapshot (run_pipeline col req) = Some snap
                 \<and> run_plan (run_pipeline col req) = Some p \<and> validated snap p"
proof -
  let ?st4 = "fold (run_stage col req) [Validate_question, Detect_intent, Load_schema, Generate_plan]
                initial_run"
  let ?st6 = "run_stage col req Compile_sql (run_stage col req Validate_plan ?st4)"
  have r: "run_pipeline col req = fold (run_stage col req) [Validate_safety, Execute_query, Narrate] ?st6"
    by (rule pipeline_split)
  have "set (invoked (run_pipeline col req)) \<subseteq> set (invoked ?st6) \<union> set [Validate_safety, Execute_query, Narrate]"
    unfolding r by (rule fold_invoked_subset)
  with assms have in6: "Compile_sql \<in> set (invoked ?st6)" by auto
  have "set (invoked ?st4) \<subseteq> set (invoked initial_run) \<union> set [Validate_question, Detect_intent, Load_schema, Generate_plan]"
    by (rule fold_invoked_subset)
  then have not4: "Compile_sql \<notin> set (invoked ?st4)"
    by (auto simp: initial_run_def)
  from validate_then_compile [OF in6 not4] obtain snap p where
    sp: "run_snapshot ?st4 = Some snap" "run_plan ?st4 = Some p" "validated snap p" by blast
  have "run_snapshot (run_pipeline col req) = run_snapshot ?st4"
    unfolding r by (simp add: fold_data run_stage_data del: fold_simps)
  moreover have "run_plan (run_pipeline col req) = run_plan ?st4"
    unfolding r by (simp add: fold_data run_stage_data del: fold_simps)
  ultimately show ?thesis using sp by simp
qed

lemma compiled_needs_invocation:
  "(run_compiled st = None \<or> Compile_sql \<in> set (invoked st)) \<Longrightarrow>
   run_compiled (fold (run_stage col req) ss st) = None
     \<or> Compile_sql \<in> set (invoked (fold (run_stage col req) ss st))"
proof (induction ss arbitrary: st)
  case Nil
  then show ?case by simp
next
  case (Cons s ss)
  have "run_compiled (run_stage col req s st) = None \<or> Compile_sql \<in> set (invoked (run_stage col req s st))"
  proof (cases "s = Compile_sql")
    case True
    then show ?thesis
      by (simp add: run_stage_def end_stage_data stage_body_frame begin_stage_def
            split: option.splits sum.splits) (use Cons.prems in auto)
  next
    case False
    with Cons.prems show ?thesis
      by (auto simp: run_stage_data run_stage_invoked)
  qed
  from Cons.IH [OF this] show ?case by simp
qed

lemma status_needs_invocation:
  "(statuses st Compile_sql = St_pending \<or> Compile_sql \<in> set (invoked st)) \<Longrightarrow>
   statuses (fold (run_stage col req) ss st) Compile_sql = St_pending
     \<or> Compile_sql \<in> set (invoked (fold (run_stage col req) ss st))"
proof (induction ss arbitrary: st)
  case Nil
  then show ?case by simp
next
  case (Cons s ss)
  have "statuses (run_stage col req s st) Compile_sql = St_pending
        \<or> Compile_sql \<in> set (invoked (run_stage col req s st))"
  proof (cases "s = Compile_sql")
    case True
    with Cons.prems show ?thesis
      by (auto simp: run_stage_status run_stage_invoked)
  next
    case False
    with Cons.prems show ?thesis
      by (auto simp: run_stage_statuses_other run_stage_invoked)
  qed
  from Cons.IH [OF this] show ?case by simp
qed

section \<open>The model on the demo catalogue\<close>

text \<open>The definitions that evaluate the validator on a concrete plan.\<close>

lemmas validator_defs = PlanValidator_errors PlanValidator_warnings checks_def check_table_unknown_def check_column_unknown_def
      check_no_tenant_filter_def check_join_not_approved_def check_agg_not_allowed_def
      check_limit_clamped_def check_implicit_group_by_def unknown_tables_def unknown_columns_def
      lacks_tenant_filter_def unjoined_dimensions_def disallowed_metrics_def
      referenced_tables_def referenced_columns_def known_table_def known_column_def
      tenant_column_of_def binds_single_value_def has_path_def JoinResolver_def search_round_def
      add_reached_def edges_from_def allowed_aggregations_def validation_error_def validation_warning_def

text \<open>The definitions that evaluate the compiler on a concrete plan.\<close>

lemmas compiler_defs = SqlCompiler_def column_sql_def metric_sql_def join_sql_def
  allowed_operators_def param_name_def orderable_def order_sql_def clause_def limit_clause_def
  show_int_def show_nat.simps digit_char_def identifiers_of_def resolved_paths_def
  enumerate_eq_zip

lemma demo_paths: "resolved_paths demo_snapshot big_limit_plan =
   [\<lparr>left_table = ''orders'', left_column = ''customer_id'',
          right_table = ''customers'', right_column = ''id''\<rparr>]"
  by (simp add: validator_defs compiler_defs demo_snapshot_def big_limit_plan_def demo_plan_def schema_entry_def)

section \<open>Properties of the compiler and of the safety guard\<close>

text \<open>The compiled text ends with the LIMIT clause.\<close>

lemma compile_limit_suffix:
  assumes "SqlCompiler snap ids p path aid = Inr q"
  shows "suffix (limit_clause snap p) (sql q)"
proof -
  from assms obtain body where "sql q = body @ limit_clause snap p"
    by (auto simp: SqlCompiler_def split: option.splits prod.splits if_splits)
  then show ?thesis by (simp add: suffix_def)
qed









section \<open>Validation inside a run\<close>

text \<open>A run that drafted a plan was not halted before validation; an invalid plan halts there.\<close>

lemma plan_drafted_not_halted:
  assumes "run_plan (fold (run_stage col req) [Validate_question, Detect_intent, Load_schema, Generate_plan] initial_run) = Some p"
  shows "\<not> halted (fold (run_stage col req) [Validate_question, Detect_intent, Load_schema, Generate_plan] initial_run)"
proof -
  let ?st3 = "fold (run_stage col req) [Validate_question, Detect_intent, Load_schema] initial_run"
  have p3: "run_plan ?st3 = None"
    by (simp add: fold_data run_stage_data initial_run_def del: fold_simps)
  have e: "fold (run_stage col req) [Validate_question, Detect_intent, Load_schema, Generate_plan] initial_run
           = run_stage col req Generate_plan ?st3"
    by simp
  from assms p3 show ?thesis
    unfolding e
    by (auto simp: run_stage_def end_stage_def begin_stage_def stage_body_frame
             split: if_splits option.splits prod.splits)
qed

lemma invalid_plan_halts_validation:
  assumes "run_snapshot (run_pipeline col req) = Some snap" "run_plan (run_pipeline col req) = Some p"
      and "\<not> validated snap p"
  shows "statuses (run_pipeline col req) Validate_plan = St_error"
proof -
  let ?st4 = "fold (run_stage col req) [Validate_question, Detect_intent, Load_schema, Generate_plan]
                initial_run"
  let ?st5 = "run_stage col req Validate_plan ?st4"
  have r: "run_pipeline col req =
      fold (run_stage col req) [Compile_sql, Validate_safety, Execute_query, Narrate] ?st5"
    by (simp add: run_pipeline_def pipeline_stages_def)
  have s4: "run_snapshot ?st4 = Some snap" "run_plan ?st4 = Some p"
    using assms(1,2) unfolding r by (simp_all add: fold_data run_stage_data del: fold_simps)
  from plan_drafted_not_halted [OF s4(2)] have nh: "\<not> halted ?st4" .
  have "statuses ?st5 Validate_plan = St_error"
    using nh s4 assms(3)
    by (simp add: run_stage_status begin_stage_def validated_def)
  moreover have "statuses (run_pipeline col req) Validate_plan = statuses ?st5 Validate_plan"
    unfolding r by (rule fold_statuses_other) simp
  ultimately show ?thesis by simp
qed


text \<open>The definitions that evaluate a run on the demo collaborators.\<close>

lemmas run_defs = run_pipeline_def pipeline_stages_def run_stage_def begin_stage_def end_stage_def
  initial_run_def demo_collaborators_def demo_request_def

lemma no_tenant_run:
  "run_snapshot (run_pipeline (demo_collaborators no_tenant_plan) (demo_request True True)) = Some demo_snapshot
   \<and> run_plan (run_pipeline (demo_collaborators no_tenant_plan) (demo_request True True)) = Some no_tenant_plan"
proof -
  have "run_snapshot (fold (run_stage (demo_collaborators no_tenant_plan) (demo_request True True))
           [Validate_question, Detect_intent, Load_schema, Generate_plan] initial_run) = Some demo_snapshot
      \<and> run_plan (fold (run_stage (demo_collaborators no_tenant_plan) (demo_request True True))
           [Validate_question, Detect_intent, Load_schema, Generate_plan] initial_run) = Some no_tenant_plan"
    by (simp add: run_defs)
  then show ?thesis
    unfolding pipeline_split by (simp add: fold_data run_stage_data del: fold_simps)
qed

text \<open>
  C1: for a fact table with a configured tenant column, a plan in which no filter binds
  that column to exactly one value fails validation with \<^verbatim>\<open>E_NO_TENANT_FILTER\<close>; the check
  is part of every validation, for every request (the request has no switch that
  reaches it); and in every run that drafted such a plan the validation stage ends in
  error and compilation is never invoked: the compile stage remains pending and there
  is no CompiledQuery.
\<close>

theorem tenant_enforcement:
  assumes "tenant_column_of snap (fact_table p) = Some tc"
      and "\<not> list_ex (binds_single_value \<lparr>ref_table = fact_table p, ref_column = tc\<rparr>) (filters p)"
  shows "E_NO_TENANT_FILTER \<in> set (map code (errors (PlanValidator snap p)))
       \<and> \<not> validated snap p
       \<and> (\<forall>col req. run_snapshot (run_pipeline col req) = Some snap
                     \<and> run_plan (run_pipeline col req) = Some p
             \<longrightarrow> statuses (run_pipeline col req) Validate_plan = St_error
               \<and> Compile_sql \<notin> set (invoked (run_pipeline col req))
               \<and> statuses (run_pipeline col req) Compile_sql = St_pending
               \<and> run_compiled (run_pipeline col req) = None)"
proof -
  from assms have lacks: "lacks_tenant_filter snap p"
    by (simp add: lacks_tenant_filter_def)
  then have err: "E_NO_TENANT_FILTER \<in> set (map code (errors (PlanValidator snap p)))"
    by (rule tenant_error)
  from lacks have nv: "\<not> validated snap p"
    using validated_tenant by blast
  have run: "statuses (run_pipeline col req) Validate_plan = St_error
               \<and> Compile_sql \<notin> set (invoked (run_pipeline col req))
               \<and> statuses (run_pipeline col req) Compile_sql = St_pending
               \<and> run_compiled (run_pipeline col req) = None"
    if sp: "run_snapshot (run_pipeline col req) = Some snap" "run_plan (run_pipeline col req) = Some p"
    for col req
  proof -
    have ni: "Compile_sql \<notin> set (invoked (run_pipeline col req))"
      using compile_only_validated [of col req] sp nv by auto
    have "run_compiled (run_pipeline col req) = None
            \<or> Compile_sql \<in> set (invoked (run_pipeline col req))"
      unfolding run_pipeline_def
      by (rule compiled_needs_invocation) (simp add: initial_run_def)
    moreover have "statuses (run_pipeline col req) Compile_sql = St_pending
            \<or> Compile_sql \<in> set (invoked (run_pipeline col req))"
      unfolding run_pipeline_def
      by (rule status_needs_invocation) (simp add: initial_run_def)
    ultimately show ?thesis
      using ni invalid_plan_halts_validation [OF sp nv] by simp
  qed
  from err nv run show ?thesis by blast
qed

text \<open>The demo plan without its tenant filter, run with execution and narration enabled.\<close>

theorem tenant_enforcement_witness:
  "tenant_column_of demo_snapshot (fact_table no_tenant_plan) = Some ''tenant_id''
   \<and> E_NO_TENANT_FILTER \<in> set (map code (errors (PlanValidator demo_snapshot no_tenant_plan)))
   \<and> statuses (run_pipeline (demo_collaborators no_tenant_plan) (demo_request True True)) Validate_plan
        = St_error
   \<and> Compile_sql \<notin> set (invoked (run_pipeline (demo_collaborators no_tenant_plan) (demo_request True True)))
   \<and> run_compiled (run_pipeline (demo_collaborators no_tenant_plan) (demo_request True True)) = None"
proof -
  have t: "tenant_column_of demo_snapshot (fact_table no_tenant_plan) = Some ''tenant_id''"
    by (simp add: tenant_column_of_def demo_snapshot_def no_tenant_plan_def demo_plan_def)
  have f: "\<not> list_ex (binds_single_value
              \<lparr>ref_table = fact_table no_tenant_plan, ref_column = ''tenant_id''\<rparr>) (filters no_tenant_plan)"
    by (simp add: no_tenant_plan_def)
  from tenant_enforcement [OF t f] no_tenant_run t show ?thesis by blast
qed

lemma demo_compiles:
  "SqlCompiler demo_snapshot (identifiers_of demo_snapshot) big_limit_plan
     (resolved_paths demo_snapshot big_limit_plan) aid =
   Inr \<lparr>sql = ''SELECT customers.name, SUM(orders.amount) AS m0 FROM orders JOIN customers ON orders.customer_id = customers.id WHERE orders.tenant_id = :p0 GROUP BY customers.name LIMIT 500'',
        params = [(''p0'', ''42'')], audit_id = aid\<rparr>"
  by (simp add: demo_paths)
     (simp add: validator_defs compiler_defs demo_snapshot_def big_limit_plan_def demo_plan_def schema_entry_def)

lemma big_limit_valid: "errors (PlanValidator demo_snapshot big_limit_plan) = []"
  by (simp add: validator_defs demo_snapshot_def big_limit_plan_def demo_plan_def schema_entry_def)


text \<open>
  C4: the compiled SQL ends with the clause \<^verbatim>\<open>LIMIT min(plan.limit, configured_ceiling)\<close>;
  a limit above the ceiling contributes the warning \<^verbatim>\<open>W_LIMIT_CLAMPED\<close>, and the limit
  contributes no ValidationError (the errors, and whether the plan is validated, do not
  depend on it); in particular with limit 100000 and ceiling 500 the SQL ends with
  \<^verbatim>\<open>LIMIT 500\<close>.
\<close>

theorem limit_clamping:
  "(SqlCompiler snap ids p path aid = Inr q \<longrightarrow>
      suffix ('' LIMIT '' @ show_int (min (limit p) (limit_ceiling snap))) (sql q))
   \<and> (limit p > limit_ceiling snap \<longrightarrow>
        W_LIMIT_CLAMPED \<in> set (map warning (warnings (PlanValidator snap p))))
   \<and> errors (PlanValidator snap p) = errors (PlanValidator snap (p\<lparr>limit := l\<rparr>))
   \<and> validated snap p = validated snap (p\<lparr>limit := l\<rparr>)
   \<and> (limit p = 100000 \<and> limit_ceiling snap = 500 \<and> SqlCompiler snap ids p path aid = Inr q \<longrightarrow>
        suffix '' LIMIT 500'' (sql q)
        \<and> W_LIMIT_CLAMPED \<in> set (map warning (warnings (PlanValidator snap p))))"
proof -
  have 1: "SqlCompiler snap ids p path aid = Inr q \<longrightarrow>
      suffix ('' LIMIT '' @ show_int (min (limit p) (limit_ceiling snap))) (sql q)"
    using compile_limit_suffix [of snap ids p path aid q] by (simp add: limit_clause_def)
  have 2: "limit p > limit_ceiling snap \<longrightarrow>
        W_LIMIT_CLAMPED \<in> set (map warning (warnings (PlanValidator snap p)))"
    using limit_warning [of snap p] by blast
  have 3: "errors (PlanValidator snap p) = errors (PlanValidator snap (p\<lparr>limit := l\<rparr>))"
    by (simp add: errors_limit_independent)
  have 4: "validated snap p = validated snap (p\<lparr>limit := l\<rparr>)"
    by (simp add: validated_def errors_limit_independent)
  have five: "show_int (min 100000 500) = ''500''"
    by (simp add: show_int_def show_nat.simps digit_char_def)
  have 5: "limit p = 100000 \<and> limit_ceiling snap = 500 \<and> SqlCompiler snap ids p path aid = Inr q \<longrightarrow>
        suffix '' LIMIT 500'' (sql q)
        \<and> W_LIMIT_CLAMPED \<in> set (map warning (warnings (PlanValidator snap p)))"
  proof (intro impI)
    assume a: "limit p = 100000 \<and> limit_ceiling snap = 500 \<and> SqlCompiler snap ids p path aid = Inr q"
    with 1 five have "suffix '' LIMIT 500'' (sql q)" by simp
    moreover from a 2 have "W_LIMIT_CLAMPED \<in> set (map warning (warnings (PlanValidator snap p)))"
      by simp
    ultimately show "suffix '' LIMIT 500'' (sql q)
        \<and> W_LIMIT_CLAMPED \<in> set (map warning (warnings (PlanValidator snap p)))" by blast
  qed
  from 1 2 3 4 5 show ?thesis by blast
qed

text \<open>The demo plan with limit 100000 on the demo catalogue, ceiling 500.\<close>

theorem limit_clamping_witness:
  "limit big_limit_plan = 100000 \<and> limit_ceiling demo_snapshot = 500
   \<and> (\<exists>q. SqlCompiler demo_snapshot (identifiers_of demo_snapshot) big_limit_plan
              (resolved_paths demo_snapshot big_limit_plan) ''audit-1'' = Inr q
          \<and> suffix '' LIMIT 500'' (sql q))
   \<and> W_LIMIT_CLAMPED \<in> set (map warning (warnings (PlanValidator demo_snapshot big_limit_plan)))
   \<and> errors (PlanValidator demo_snapshot big_limit_plan) = []"
proof -
  let ?q = "\<lparr>sql = ''SELECT customers.name, SUM(orders.amount) AS m0 FROM orders JOIN customers ON orders.customer_id = customers.id WHERE orders.tenant_id = :p0 GROUP BY customers.name LIMIT 500'',
        params = [(''p0'', ''42'')], audit_id = ''audit-1''\<rparr>"
  have l: "limit big_limit_plan = 100000" "limit_ceiling demo_snapshot = 500"
    by (simp_all add: big_limit_plan_def demo_snapshot_def)
  have c: "SqlCompiler demo_snapshot (identifiers_of demo_snapshot) big_limit_plan
              (resolved_paths demo_snapshot big_limit_plan) ''audit-1'' = Inr ?q"
    by (rule demo_compiles)
  from limit_clamping [of demo_snapshot "identifiers_of demo_snapshot" big_limit_plan
      "resolved_paths demo_snapshot big_limit_plan" "''audit-1''" ?q] l c
  have "suffix '' LIMIT 500'' (sql ?q)
      \<and> W_LIMIT_CLAMPED \<in> set (map warning (warnings (PlanValidator demo_snapshot big_limit_plan)))"
    by blast
  with l c big_limit_valid show ?thesis by blast
qed






section \<open>The status of a stage over a run\<close>

text \<open>
  Over a sequence of distinct stages, a stage that starts pending ends skipped when it is
  disabled, pending when it is never reached, and in success or error when it ran.
\<close>

lemma status_lifecycle:
  assumes "distinct ss" "s \<in> set ss" "s \<notin> set (invoked st)" "statuses st s = St_pending"
  shows "(disabled req s \<and> statuses (fold (run_stage col req) ss st) s = St_skipped
            \<and> s \<notin> set (invoked (fold (run_stage col req) ss st)))
       \<or> (\<not> disabled req s \<and> s \<notin> set (invoked (fold (run_stage col req) ss st))
            \<and> statuses (fold (run_stage col req) ss st) s = St_pending)
       \<or> (\<not> disabled req s \<and> s \<in> set (invoked (fold (run_stage col req) ss st))
            \<and> (statuses (fold (run_stage col req) ss st) s = St_success
                 \<or> statuses (fold (run_stage col req) ss st) s = St_error))"
  using assms
proof (induction ss arbitrary: st)
  case Nil
  then show ?case by simp
next
  case (Cons x xs)
  let ?st' = "run_stage col req x st"
  show ?case
  proof (cases "s = x")
    case True
    with Cons.prems have nx: "x \<notin> set xs" by simp
    have st: "statuses (fold (run_stage col req) xs ?st') x = statuses ?st' x"
      using nx by (rule fold_statuses_other)
    have inv: "x \<in> set (invoked (fold (run_stage col req) xs ?st')) \<longleftrightarrow> x \<in> set (invoked ?st')"
      using fold_invoked_subset [of col req xs ?st'] fold_invoked_mono [of ?st' col req xs] nx
      by auto
    from Cons.prems True show ?thesis
      by (simp add: st inv run_stage_status run_stage_invoked)
  next
    case False
    with Cons.prems have "distinct xs" "s \<in> set xs" by simp_all
    moreover from False Cons.prems have "s \<notin> set (invoked ?st')"
      by (auto simp: run_stage_invoked split: if_splits)
    moreover from False Cons.prems have "statuses ?st' s = St_pending"
      by (simp add: run_stage_statuses_other)
    ultimately show ?thesis
      using Cons.IH [of ?st'] by simp
  qed
qed

lemma run_pipeline_status:
  "(disabled req s \<and> statuses (run_pipeline col req) s = St_skipped
            \<and> s \<notin> set (invoked (run_pipeline col req)))
       \<or> (\<not> disabled req s \<and> s \<notin> set (invoked (run_pipeline col req))
            \<and> statuses (run_pipeline col req) s = St_pending)
       \<or> (\<not> disabled req s \<and> s \<in> set (invoked (run_pipeline col req))
            \<and> (statuses (run_pipeline col req) s = St_success
                 \<or> statuses (run_pipeline col req) s = St_error))"
proof -
  have "distinct pipeline_stages" by (simp add: pipeline_stages_def)
  moreover have "s \<in> set pipeline_stages" by (cases s) (simp_all add: pipeline_stages_def)
  moreover have "s \<notin> set (invoked initial_run)" "statuses initial_run s = St_pending"
    by (simp_all add: initial_run_def)
  ultimately show ?thesis
    unfolding run_pipeline_def by (rule status_lifecycle)
qed

text \<open>What the timeline draws for a skipped stage.\<close>

lemma skipped_drawn_as_pending:
  "PipelineStep stp (Some ''skipped'') isLast = PipelineStep stp (Some ''pending'') isLast"
  by (simp add: PipelineStep_def style_of_def statusStyles_def)

lemma skipped_not_drawn_as_error:
  "PipelineStep stp (Some ''skipped'') isLast \<noteq> PipelineStep stp (Some ''error'') isLast"
  "PipelineStep stp (Some ''skipped'') isLast \<noteq> PipelineStep stp (Some ''success'') isLast"
  by (simp_all add: PipelineStep_def style_of_def statusStyles_def)

text \<open>
  C6 (as stated) fails: \<^verbatim>\<open>PipelineStep\<close> draws a skipped stage exactly as a pending one
  (\<^verbatim>\<open>statusStyles\<close> has no entry for \<^verbatim>\<open>skipped\<close> and falls back to the pending style); and a
  stage can end a run in none of success, error and skipped: when the call throws, every
  stage is still pending.
\<close>

theorem skipped_counterexample:
  "PipelineStep \<lparr>step_id = ''query_execution'', step_label = ''Execute'', step_icon = Play\<rparr>
       (Some ''skipped'') False
     = PipelineStep \<lparr>step_id = ''query_execution'', step_label = ''Execute'', step_icon = Play\<rparr>
       (Some ''pending'') False
   \<and> pipelineSteps (runPipeline throwing_backend asking_state) ''question_validation'' = Some ''pending''"
proof -
  have q: "trim (question asking_state) \<noteq> []"
    by (simp add: asking_state_def trim_def is_space_def)
  have "pipelineSteps (runPipeline throwing_backend asking_state) ''question_validation'' = Some ''pending''"
    by (simp add: pipelineSteps_runPipeline [OF q] reported_def throwing_backend_def PIPELINE_STEPS_def)
  then show ?thesis by (simp add: skipped_drawn_as_pending)
qed

text \<open>
  C6 (amended): every pipeline stage starts in status pending, in the view and in the
  orchestrator; it ends a run in exactly one of pending, success, error and skipped:
  success or error when it was reached, pending exactly when it was neither reached nor
  disabled; when the caller disables execute_query or narrate, that stage is marked
  skipped; the view stores the status skipped as reported, a value distinct from pending
  and from error, and draws a skipped stage differently from an error and from a success.
\<close>

theorem stage_status_lifecycle:
  "(\<forall>p\<in>set PIPELINE_STEPS. pipelineSteps (startPipeline st) (step_id p) = Some ''pending'')
   \<and> statuses initial_run s = St_pending
   \<and> (statuses (run_pipeline col req) s = St_pending \<or> statuses (run_pipeline col req) s = St_success
       \<or> statuses (run_pipeline col req) s = St_error \<or> statuses (run_pipeline col req) s = St_skipped)
   \<and> (s \<in> set (invoked (run_pipeline col req)) \<longrightarrow>
        statuses (run_pipeline col req) s = St_success \<or> statuses (run_pipeline col req) s = St_error)
   \<and> (statuses (run_pipeline col req) s = St_pending
        \<longleftrightarrow> s \<notin> set (invoked (run_pipeline col req)) \<and> \<not> disabled req s)
   \<and> (\<not> execute req \<longrightarrow> statuses (run_pipeline col req) Execute_query = St_skipped)
   \<and> (\<not> narrate req \<longrightarrow> statuses (run_pipeline col req) Narrate = St_skipped)
   \<and> (trim (question st) \<noteq> [] \<and> r \<in> set (reported (backend (request_of st))) \<and> step r = k
        \<and> (\<forall>r'\<in>set (reported (backend (request_of st))). step r' = k \<longrightarrow> status r' = ''skipped'')
        \<longrightarrow> pipelineSteps (runPipeline backend st) k = Some ''skipped'')
   \<and> ''skipped'' \<noteq> ''pending'' \<and> ''skipped'' \<noteq> ''error''
   \<and> PipelineStep stp (Some ''skipped'') isLast \<noteq> PipelineStep stp (Some ''error'') isLast
   \<and> PipelineStep stp (Some ''skipped'') isLast \<noteq> PipelineStep stp (Some ''success'') isLast"
proof -
  have view_start: "\<forall>p\<in>set PIPELINE_STEPS. pipelineSteps (startPipeline st) (step_id p) = Some ''pending''"
    by (simp add: startPipeline_steps)
  have init: "statuses initial_run s = St_pending"
    by (simp add: initial_run_def)
  note life = run_pipeline_status [of req s col]
  have ex: "\<not> execute req \<longrightarrow> statuses (run_pipeline col req) Execute_query = St_skipped"
    using run_pipeline_status [of req Execute_query col] by auto
  have na: "\<not> narrate req \<longrightarrow> statuses (run_pipeline col req) Narrate = St_skipped"
    using run_pipeline_status [of req Narrate col] by auto
  have stored: "trim (question st) \<noteq> [] \<and> r \<in> set (reported (backend (request_of st))) \<and> step r = k
        \<and> (\<forall>r'\<in>set (reported (backend (request_of st))). step r' = k \<longrightarrow> status r' = ''skipped'')
        \<longrightarrow> pipelineSteps (runPipeline backend st) k = Some ''skipped''"
    using reported_status_stored [of st r backend k "''skipped''"] by blast
  have names: "''skipped'' \<noteq> ''pending'' \<and> ''skipped'' \<noteq> ''error''" by simp
  from life have four: "statuses (run_pipeline col req) s = St_pending \<or> statuses (run_pipeline col req) s = St_success
       \<or> statuses (run_pipeline col req) s = St_error \<or> statuses (run_pipeline col req) s = St_skipped"
    by blast
  from life have reached: "s \<in> set (invoked (run_pipeline col req)) \<longrightarrow>
        statuses (run_pipeline col req) s = St_success \<or> statuses (run_pipeline col req) s = St_error"
    by blast
  from life have pend: "statuses (run_pipeline col req) s = St_pending
        \<longleftrightarrow> s \<notin> set (invoked (run_pipeline col req)) \<and> \<not> disabled req s"
    by auto
  show ?thesis
    using view_start init four reached pend ex na stored names
      skipped_not_drawn_as_error [of stp isLast]
    by blast
qed

text \<open>The run of the demo plan without tenant filter, with execution disabled.\<close>

lemma no_tenant_run_statuses:
  "map (statuses (run_pipeline (demo_collaborators no_tenant_plan) (demo_request False True))) pipeline_stages
     = [St_success, St_success, St_success, St_success, St_error, St_pending, St_pending,
        St_skipped, St_pending]
   \<and> invoked (run_pipeline (demo_collaborators no_tenant_plan) (demo_request False True))
     = [Validate_question, Detect_intent, Load_schema, Generate_plan, Validate_plan]"
  by (simp add: run_defs validator_defs demo_snapshot_def no_tenant_plan_def demo_plan_def
      schema_entry_def)

text \<open>
  The view before and after a run that skipped execution, and the statuses of the run that
  fails in validation with execution disabled.
\<close>

theorem stage_status_lifecycle_witness:
  "pipelineSteps (startPipeline asking_state) ''query_execution'' = Some ''pending''
   \<and> Validate_question \<in> set (invoked (run_pipeline (demo_collaborators no_tenant_plan) (demo_request False True)))
   \<and> statuses (run_pipeline (demo_collaborators no_tenant_plan) (demo_request False True)) Validate_question
       = St_success
   \<and> statuses (run_pipeline (demo_collaborators no_tenant_plan) (demo_request False True)) Execute_query
       = St_skipped
   \<and> statuses (run_pipeline (demo_collaborators no_tenant_plan) (demo_request False True)) Compile_sql
       = St_pending
   \<and> pipelineSteps (runPipeline skipping_backend asking_state) ''query_execution'' = Some ''skipped''"
proof -
  let ?col = "demo_collaborators no_tenant_plan"
  let ?req = "demo_request False True"
  have m: "\<lparr>step_id = ''query_execution'', step_label = ''Execute'', step_icon = Play\<rparr> \<in> set PIPELINE_STEPS"
    by (simp add: PIPELINE_STEPS_def)
  have q: "trim (question asking_state) \<noteq> []"
    by (simp add: asking_state_def trim_def is_space_def)
  have rep: "\<lparr>step = ''query_execution'', status = ''skipped''\<rparr>
               \<in> set (reported (skipping_backend (request_of asking_state)))"
       "\<forall>r'\<in>set (reported (skipping_backend (request_of asking_state))).
           step r' = ''query_execution'' \<longrightarrow> status r' = ''skipped''"
    by (simp_all add: reported_def skipping_backend_def)
  have inv: "Validate_question \<in> set (invoked (run_pipeline ?col ?req))"
       "Compile_sql \<notin> set (invoked (run_pipeline ?col ?req))"
    using no_tenant_run_statuses by simp_all
  have st: "statuses (run_pipeline ?col ?req) Validate_question \<noteq> St_error"
    using no_tenant_run_statuses by (simp add: pipeline_stages_def)
  have dis: "\<not> execute ?req" "\<not> disabled ?req Compile_sql"
    by (simp_all add: demo_request_def)
  from stage_status_lifecycle [of asking_state Validate_question ?col ?req _ skipping_backend] m
  have a: "pipelineSteps (startPipeline asking_state) ''query_execution'' = Some ''pending''"
    by fastforce
  from stage_status_lifecycle [of asking_state Validate_question ?col ?req] inv st
  have b: "statuses (run_pipeline ?col ?req) Validate_question = St_success"
    by blast
  from stage_status_lifecycle [of asking_state Validate_question ?col ?req] dis
  have c: "statuses (run_pipeline ?col ?req) Execute_query = St_skipped"
    by blast
  from stage_status_lifecycle [of asking_state Compile_sql ?col ?req] inv dis
  have d: "statuses (run_pipeline ?col ?req) Compile_sql = St_pending"
    by blast
  from stage_status_lifecycle [of asking_state Validate_question ?col ?req
      "\<lparr>step = ''query_execution'', status = ''skipped''\<rparr>" skipping_backend "''query_execution''"]
    q rep
  have e: "pipelineSteps (runPipeline skipping_backend asking_state) ''query_execution'' = Some ''skipped''"
    by simp
  from a inv(1) b c d e show ?thesis by blast
qed

end
